theory Spec2Isabelle
  imports Main
begin

section \<open>JavaScript values\<close>

text \<open>
  The client (\<^verbatim>\<open>App.js\<close>, \<^verbatim>\<open>services/api.js\<close>, \<^verbatim>\<open>utils/clientActions.js\<close>) is written in
  JavaScript and probes loosely typed response bodies.  A value is what \<^verbatim>\<open>JSON.parse\<close> can
  return, plus \<^verbatim>\<open>undefined\<close> (a missing property) and a built-in function object (the only one
  the program can meet is \<^verbatim>\<open>String.prototype.link\<close>, through \<^verbatim>\<open>data?.link\<close> on a string body).
  A number is kept as the text JavaScript prints for it (\<^verbatim>\<open>String(n)\<close>), which is all the
  program observes of a number besides its truthiness; \<^verbatim>\<open>+0\<close>, \<^verbatim>\<open>-0\<close> and \<^verbatim>\<open>NaN\<close>, printed
  \<^verbatim>\<open>0\<close> and \<^verbatim>\<open>NaN\<close>, are the falsy ones.
  A \<open>char\<close> stands for one UTF-16 code unit below 256.  The pairs of \<open>JObj\<close> are the own
  properties of the object, read with \<open>map_of\<close>.
\<close>

datatype jsval =
    JUndefined
  | JNull
  | JBool bool
  | JNum string
  | JStr string
  | JArr "jsval list"
  | JObj "(string \<times> jsval) list"
  | JFun string

text \<open>\<^verbatim>\<open>Boolean(v)\<close>: what \<^verbatim>\<open>||\<close>, \<^verbatim>\<open>&&\<close>, \<^verbatim>\<open>!\<close> and \<^verbatim>\<open>filter(Boolean)\<close> test.\<close>

fun truthy :: "jsval \<Rightarrow> bool" where
  "truthy JUndefined = False"
| "truthy JNull = False"
| "truthy (JBool b) = b"
| "truthy (JNum n) = (n \<noteq> ''0'' \<and> n \<noteq> ''NaN'')"
| "truthy (JStr s) = (s \<noteq> [])"
| "truthy (JArr xs) = True"
| "truthy (JObj kvs) = True"
| "truthy (JFun f) = True"

text \<open>\<^verbatim>\<open>a || b\<close> and \<^verbatim>\<open>a && b\<close> on values.\<close>

definition js_or :: "jsval \<Rightarrow> jsval \<Rightarrow> jsval" where
  "js_or a b = (if truthy a then a else b)"

definition js_and :: "jsval \<Rightarrow> jsval \<Rightarrow> jsval" where
  "js_and a b = (if truthy a then b else a)"

text \<open>
  \<^verbatim>\<open>v?.k\<close> (and \<^verbatim>\<open>v.k\<close> where the program has already tested \<open>v\<close>).  Exact for the keys the
  program probes: \<^verbatim>\<open>ideas items text idea id idea_id ideaId url share_url shareUrl link content
  data filename mimeType detail message\<close>; of these only \<^verbatim>\<open>link\<close> is inherited by a primitive.
\<close>

fun js_get :: "jsval \<Rightarrow> string \<Rightarrow> jsval" where
  "js_get (JObj kvs) k = (case map_of kvs k of Some v \<Rightarrow> v | None \<Rightarrow> JUndefined)"
| "js_get (JStr s) k = (if k = ''link'' then JFun ''link'' else JUndefined)"
| "js_get v k = JUndefined"

fun isArray :: "jsval \<Rightarrow> bool" where
  "isArray (JArr xs) = True"
| "isArray v = False"

fun typeof_string :: "jsval \<Rightarrow> bool" where
  "typeof_string (JStr s) = True"
| "typeof_string v = False"

fun typeof_object :: "jsval \<Rightarrow> bool" where
  "typeof_object JNull = True"
| "typeof_object (JArr xs) = True"
| "typeof_object (JObj kvs) = True"
| "typeof_object v = False"

subsection \<open>Thrown errors\<close>

text \<open>A thrown JavaScript error, with the two extra fields \<^verbatim>\<open>request\<close> attaches.\<close>

record js_error =
  err_name :: string
  err_message :: string
  err_status :: "nat option"
  err_body :: "jsval option"

text \<open>\<^verbatim>\<open>new Error(message)\<close>.\<close>

definition new_Error :: "string \<Rightarrow> js_error" where
  "new_Error m = \<lparr>err_name = ''Error'', err_message = m, err_status = None, err_body = None\<rparr>"

definition TypeError :: "string \<Rightarrow> js_error" where
  "TypeError m = (new_Error m)\<lparr>err_name := ''TypeError''\<rparr>"

subsection \<open>Strings\<close>

fun show_nat :: "nat \<Rightarrow> string" where
  "show_nat n =
     (if n < 10 then [''0123456789'' ! n]
      else show_nat (n div 10) @ [''0123456789'' ! (n mod 10)])"

declare show_nat.simps [simp del]

fun js_join :: "string list \<Rightarrow> string" where
  "js_join [] = []"
| "js_join [x] = x"
| "js_join (x # y # ys) = x @ '','' @ js_join (y # ys)"

text \<open>The first error of a sequence of results, else all the values.\<close>

fun collect :: "(js_error + 'a) list \<Rightarrow> js_error + 'a list" where
  "collect [] = Inr []"
| "collect (Inl e # rs) = Inl e"
| "collect (Inr x # rs) = (case collect rs of Inl e \<Rightarrow> Inl e | Inr xs \<Rightarrow> Inr (x # xs))"

text \<open>
  \<^verbatim>\<open>ToString(v)\<close>, as applied by \<^verbatim>\<open>new Error(message)\<close>, by template literals, by
  \<^verbatim>\<open>encodeURIComponent\<close> and by the \<^verbatim>\<open>Blob\<close>, DOM and clipboard interfaces.  An array is
  joined with commas, \<^verbatim>\<open>null\<close> and \<^verbatim>\<open>undefined\<close> elements printing as nothing.  A parsed
  object prints \<^verbatim>\<open>[object Object]\<close> through \<^verbatim>\<open>Object.prototype.toString\<close>, unless it has an
  own property \<^verbatim>\<open>toString\<close>: that is not callable, \<^verbatim>\<open>valueOf\<close> yields no primitive either,
  and the conversion throws a \<^verbatim>\<open>TypeError\<close> (the wording of its message is the engine's;
  V8's is used).
\<close>

fun js_toString :: "jsval \<Rightarrow> js_error + string" where
  "js_toString JUndefined = Inr ''undefined''"
| "js_toString JNull = Inr ''null''"
| "js_toString (JBool b) = Inr (if b then ''true'' else ''false'')"
| "js_toString (JNum n) = Inr n"
| "js_toString (JStr s) = Inr s"
| "js_toString (JArr xs) =
     (case collect (map (\<lambda>x. if x = JNull \<or> x = JUndefined then Inr [] else js_toString x) xs)
      of Inl e \<Rightarrow> Inl e | Inr ss \<Rightarrow> Inr (js_join ss))"
| "js_toString (JObj kvs) =
     (if map_of kvs ''toString'' \<noteq> None
      then Inl (TypeError ''Cannot convert object to primitive value'')
      else Inr ''[object Object]'')"
| "js_toString (JFun f) = Inr (''function '' @ f @ ''() { [native code] }'')"

text \<open>White space removed by \<^verbatim>\<open>String.prototype.trim\<close>, among the code units below 256.\<close>

definition is_space :: "char \<Rightarrow> bool" where
  "is_space c \<longleftrightarrow> c \<in> set [CHR 0x09, CHR 0x0A, CHR 0x0B, CHR 0x0C, CHR 0x0D, CHR 0x20, CHR 0xA0]"

definition js_trim :: "string \<Rightarrow> string" where
  "js_trim s = rev (dropWhile is_space (rev (dropWhile is_space s)))"

text \<open>The class \<^verbatim>\<open>\w\<close> of a regular expression without the unicode flag.\<close>

definition is_word :: "char \<Rightarrow> bool" where
  "is_word c \<longleftrightarrow>
     c \<in> set ''abcdefghijklmnopqrstuvwxyzABCDEFGHIJKLMNOPQRSTUVWXYZ0123456789_''"

text \<open>\<^verbatim>\<open>s.slice(-n)\<close>: the last \<open>n\<close> code units, the whole string when it is shorter.\<close>

definition slice_last :: "nat \<Rightarrow> string \<Rightarrow> string" where
  "slice_last n s = drop (length s - n) s"

text \<open>\<^verbatim>\<open>toUpperCase\<close> on the ASCII letters (the export formats are ASCII identifiers).\<close>

definition upper_char :: "char \<Rightarrow> char" where
  "upper_char c =
     (case map_of (zip ''abcdefghijklmnopqrstuvwxyz'' ''ABCDEFGHIJKLMNOPQRSTUVWXYZ'') c of
        Some u \<Rightarrow> u | None \<Rightarrow> c)"

definition toUpperCase :: "string \<Rightarrow> string" where
  "toUpperCase s = map upper_char s"

section \<open>Transport adapter (\<^verbatim>\<open>services/api.js\<close>)\<close>

text \<open>
  What \<^verbatim>\<open>fetch\<close> delivers: status, the body text, and what \<^verbatim>\<open>JSON.parse\<close> makes of that text
  (\<open>None\<close> when it throws).  The parser itself is not modelled; the environment supplies its
  result with the response.
\<close>

record response =
  res_status :: nat
  res_text :: string
  res_json :: "jsval option"

text \<open>
  The outcome of the awaited \<^verbatim>\<open>fetch\<close> and body read: a rejection (network failure, or the
  \<^verbatim>\<open>AbortError\<close> raised when the timeout aborts the request) or a response.  \<^verbatim>\<open>request\<close>
  rethrows whatever is thrown inside its \<^verbatim>\<open>try\<close>, the error of \<^verbatim>\<open>new Error(message)\<close>
  included, except that an \<^verbatim>\<open>AbortError\<close> becomes the time-out error.
\<close>

datatype fetch_outcome = Threw js_error | Responded response

definition res_ok :: "response \<Rightarrow> bool" where
  "res_ok r \<longleftrightarrow> 200 \<le> res_status r \<and> res_status r \<le> 299"

definition safeParseBody :: "response \<Rightarrow> jsval" where
  "safeParseBody r =
     (if res_text r = [] then JNull
      else case res_json r of Some v \<Rightarrow> v | None \<Rightarrow> JStr (res_text r))"

text \<open>The argument of \<^verbatim>\<open>new Error\<close> on a response that is not ok.\<close>

definition request_message :: "jsval \<Rightarrow> nat \<Rightarrow> jsval" where
  "request_message body st =
     js_or
       (js_or
          (js_and body
             (js_and (JBool (typeof_object body))
                (js_or (js_get body ''detail'') (js_get body ''message''))))
          (if typeof_string body then body else JNull))
       (JStr (''Request failed with status '' @ show_nat st))"

definition request :: "fetch_outcome \<Rightarrow> js_error + jsval" where
  "request out =
     (case out of
        Threw e \<Rightarrow>
          (if err_name e = ''AbortError''
           then Inl (new_Error ''Request timed out. Please try again.'')
           else Inl e)
      | Responded r \<Rightarrow>
          (let body = safeParseBody r in
           if \<not> res_ok r
           then (case js_toString (request_message body (res_status r)) of
                   Inl e \<Rightarrow> Inl e
                 | Inr message \<Rightarrow>
                     Inl ((new_Error message)
                            \<lparr>err_status := Some (res_status r), err_body := Some body\<rparr>))
           else Inr body))"

text \<open>
  \<^verbatim>\<open>shareIdea\<close> and \<^verbatim>\<open>exportIdea\<close> build the path with \<^verbatim>\<open>encodeURIComponent(ideaId)\<close>
  before they call \<^verbatim>\<open>request\<close>; where that conversion throws, the promise is rejected and
  no request is made.  The other service functions pass their arguments through
  \<^verbatim>\<open>JSON.stringify\<close>, which does not throw on these values, and return what \<^verbatim>\<open>request\<close>
  returns.
\<close>

definition shareIdea :: "jsval \<Rightarrow> fetch_outcome \<Rightarrow> js_error + jsval" where
  "shareIdea ideaId out =
     (case js_toString ideaId of Inl e \<Rightarrow> Inl e | Inr path \<Rightarrow> request out)"

definition exportIdea :: "jsval \<Rightarrow> fetch_outcome \<Rightarrow> js_error + jsval" where
  "exportIdea ideaId out =
     (case js_toString ideaId of Inl e \<Rightarrow> Inl e | Inr path \<Rightarrow> request out)"

text \<open>\<^verbatim>\<open>e?.message || fallback\<close> in the handlers' catch blocks.\<close>

definition message_or :: "js_error \<Rightarrow> string \<Rightarrow> string" where
  "message_or e fallback = (if err_message e \<noteq> [] then err_message e else fallback)"

section \<open>Session state (\<^verbatim>\<open>App.js\<close>)\<close>

text \<open>An element of \<^verbatim>\<open>ideas\<close>: \<^verbatim>\<open>{id, text, savedId?, savedAt?}\<close>.\<close>

record idea =
  idea_id :: string
  idea_text :: jsval
  savedId :: jsval
  savedAt :: "string option"

text \<open>
  An entry of \<^verbatim>\<open>busyByIdeaId\<close>.  A flag that was never set reads \<^verbatim>\<open>undefined\<close>, which the
  program only tests for truthiness, so it is \<open>False\<close> here.
\<close>

record busy =
  saving :: bool
  sharing :: bool
  exporting :: bool

datatype status = StIdle | StLoading | StError | StSuccess

text \<open>The calls made to the service functions of \<^verbatim>\<open>services/api.js\<close>, with their arguments.\<close>

datatype api_call =
    GenerateIdeas string string int
  | SaveIdea string jsval
  | ListSavedIdeas
  | ShareIdea jsval
  | ExportIdea jsval string

text \<open>
  A file downloaded by \<^verbatim>\<open>downloadTextFile\<close>.  \<open>Stringified v\<close> stands for
  \<^verbatim>\<open>JSON.stringify(v, null, 2)\<close>; the serialiser is not modelled.
\<close>

datatype dl_content = Text string | Stringified jsval

text \<open>The \<^verbatim>\<open>content\<close> argument of \<^verbatim>\<open>downloadTextFile\<close>: a value, or a serialised value.\<close>

datatype dl_source = Value jsval | Stringify jsval

record download =
  filename :: string
  content :: dl_content
  mimeType :: string

text \<open>
  An \<^verbatim>\<open>async\<close> handler suspended at an \<^verbatim>\<open>await\<close>, with the variables its continuation has
  captured: the initial load of the saved list, \<^verbatim>\<open>onGenerate\<close> (with \<^verbatim>\<open>count\<close>), \<^verbatim>\<open>onSave\<close> at
  \<^verbatim>\<open>saveIdea\<close> and at \<^verbatim>\<open>listSavedIdeas\<close>, \<^verbatim>\<open>onShare\<close> at \<^verbatim>\<open>shareIdea\<close> and at
  \<^verbatim>\<open>copyToClipboard\<close> (with the url), \<^verbatim>\<open>onExport\<close> at \<^verbatim>\<open>exportIdea\<close>, and the promise
  of a Copy button (with its text).
\<close>

datatype pending =
    PInitialLoad
  | PGenerate int
  | PSave idea
  | PRefresh idea
  | PShare idea
  | PShareCopy idea jsval
  | PExport idea string
  | PCopy jsval

text \<open>
  What the environment decides when a suspended handler resumes: the outcome of the
  transport call, the outcome of the clipboard write (\<open>None\<close> is success), the strings the
  successive calls of \<^verbatim>\<open>makeLocalId\<close> return, and the clock.
\<close>

record env =
  outcome :: fetch_outcome
  clip :: "js_error option"
  ids :: "nat \<Rightarrow> string"
  now :: string

text \<open>
  The React state of \<^verbatim>\<open>App\<close>, followed by the suspended handlers and the effects: service
  calls issued, files downloaded, texts handed to the clipboard.  \<^verbatim>\<open>errorByIdeaId\<close> and
  \<^verbatim>\<open>busyByIdeaId\<close> are read with a default for an absent key, so they are total here.
\<close>

record state =
  topic :: string
  tone :: string
  count :: int
  ideas :: "idea list"
  generationStatus :: status
  generationError :: string
  savedIdeas :: jsval
  savedStatus :: status
  savedError :: string
  busyByIdeaId :: "string \<Rightarrow> busy"
  errorByIdeaId :: "string \<Rightarrow> string"
  notice :: "(string \<times> string) option"
  noticeTimer :: bool
  pending :: "pending list"
  requests :: "api_call list"
  downloads :: "download list"
  clipboard :: "jsval list"

text \<open>The state after the first render, when the mount effect has called \<^verbatim>\<open>listSavedIdeas\<close>.\<close>

definition init :: state where
  "init =
     \<lparr>topic = [], tone = ''Creative'', count = 6, ideas = [],
      generationStatus = StIdle, generationError = [],
      savedIdeas = JArr [], savedStatus = StLoading, savedError = [],
      busyByIdeaId = (\<lambda>i. \<lparr>saving = False, sharing = False, exporting = False\<rparr>),
      errorByIdeaId = (\<lambda>i. []),
      notice = None, noticeTimer = False,
      pending = [PInitialLoad], requests = [ListSavedIdeas],
      downloads = [], clipboard = []\<rparr>"

subsection \<open>Helpers of the component\<close>

definition canGenerate :: "state \<Rightarrow> bool" where
  "canGenerate s \<longleftrightarrow> 3 \<le> length (js_trim (topic s)) \<and> generationStatus s \<noteq> StLoading"

definition setIdeaError :: "string \<Rightarrow> string \<Rightarrow> state \<Rightarrow> state" where
  "setIdeaError i m s = s\<lparr>errorByIdeaId := (errorByIdeaId s)(i := m)\<rparr>"

text \<open>
  \<^verbatim>\<open>setIdeaBusy(id, patch)\<close>: the entry of \<open>id\<close> with the flags of the patch overwritten.
  The three patches the program passes are \<^verbatim>\<open>{saving: b}\<close>, \<^verbatim>\<open>{sharing: b}\<close> and
  \<^verbatim>\<open>{exporting: b}\<close>.
\<close>

definition setIdeaBusy :: "string \<Rightarrow> (busy \<Rightarrow> busy) \<Rightarrow> state \<Rightarrow> state" where
  "setIdeaBusy i patch s = s\<lparr>busyByIdeaId := (busyByIdeaId s)(i := patch (busyByIdeaId s i))\<rparr>"

definition setSaving :: "string \<Rightarrow> bool \<Rightarrow> state \<Rightarrow> state" where
  "setSaving i b s = setIdeaBusy i (\<lambda>flags. flags\<lparr>saving := b\<rparr>) s"

definition setSharing :: "string \<Rightarrow> bool \<Rightarrow> state \<Rightarrow> state" where
  "setSharing i b s = setIdeaBusy i (\<lambda>flags. flags\<lparr>sharing := b\<rparr>) s"

definition setExporting :: "string \<Rightarrow> bool \<Rightarrow> state \<Rightarrow> state" where
  "setExporting i b s = setIdeaBusy i (\<lambda>flags. flags\<lparr>exporting := b\<rparr>) s"

definition showNotice :: "string \<Rightarrow> string \<Rightarrow> state \<Rightarrow> state" where
  "showNotice ty m s = s\<lparr>notice := Some (ty, m), noticeTimer := True\<rparr>"

definition call_api :: "api_call \<Rightarrow> pending \<Rightarrow> state \<Rightarrow> state" where
  "call_api c p s = s\<lparr>requests := requests s @ [c], pending := pending s @ [p]\<rparr>"

text \<open>The text of the one part of \<^verbatim>\<open>new Blob([content], ...)\<close>.\<close>

fun blob_text :: "dl_source \<Rightarrow> js_error + dl_content" where
  "blob_text (Value v) = (case js_toString v of Inl e \<Rightarrow> Inl e | Inr t \<Rightarrow> Inr (Text t))"
| "blob_text (Stringify v) = Inr (Stringified v)"

text \<open>
  \<^verbatim>\<open>downloadTextFile({filename, content, mimeType})\<close> of \<^verbatim>\<open>utils/clientActions.js\<close>: the
  \<^verbatim>\<open>Blob\<close> constructor converts the content and then the type to strings, the assignment
  to \<^verbatim>\<open>a.download\<close> converts the file name; a conversion that throws ends the helper before
  the click.
\<close>

definition downloadTextFile :: "jsval \<Rightarrow> dl_source \<Rightarrow> jsval \<Rightarrow> state \<Rightarrow> js_error + state" where
  "downloadTextFile fn src mt s =
     (case blob_text src of
        Inl e \<Rightarrow> Inl e
      | Inr c \<Rightarrow>
          (case js_toString mt of
             Inl e \<Rightarrow> Inl e
           | Inr m \<Rightarrow>
               (case js_toString fn of
                  Inl e \<Rightarrow> Inl e
                | Inr f \<Rightarrow>
                    Inr (s\<lparr>downloads := downloads s @
                             [\<lparr>filename = f, content = c, mimeType = m\<rparr>]\<rparr>))))"

subsection \<open>Generate and the response normaliser\<close>

definition onGenerate :: "state \<Rightarrow> state" where
  "onGenerate s =
     (let trimmed = js_trim (topic s) in
      if length trimmed < 3
      then s\<lparr>generationStatus := StError,
             generationError := ''Please enter at least 3 characters.''\<rparr>
      else call_api (GenerateIdeas trimmed (tone s) (count s)) (PGenerate (count s))
             (s\<lparr>generationStatus := StLoading, generationError := [], ideas := []\<rparr>))"

text \<open>\<^verbatim>\<open>(Array.isArray(result) && result) || result?.ideas || result?.items || []\<close>\<close>

definition pick_list :: "jsval \<Rightarrow> jsval" where
  "pick_list result =
     js_or (js_or (js_or (js_and (JBool (isArray result)) result) (js_get result ''ideas''))
              (js_get result ''items''))
       (JArr [])"

text \<open>\<^verbatim>\<open>typeof item === "string" ? item : item?.text || item?.idea || ""\<close>\<close>

definition item_text :: "jsval \<Rightarrow> jsval" where
  "item_text item =
     (if typeof_string item then item
      else js_or (js_or (js_get item ''text'') (js_get item ''idea'')) (JStr []))"

text \<open>\<^verbatim>\<open>Math.max(1, Number(count) || 6)\<close>, on a \<^verbatim>\<open>count\<close> that is a number.\<close>

definition limit :: "int \<Rightarrow> nat" where
  "limit c = nat (max 1 (if c = 0 then 6 else c))"

definition normalized_texts :: "int \<Rightarrow> jsval list \<Rightarrow> jsval list" where
  "normalized_texts c xs = take (limit c) (filter truthy (map item_text xs))"

text \<open>The last \<^verbatim>\<open>map\<close>: the \<open>k\<close>-th record takes the \<open>k\<close>-th string \<^verbatim>\<open>makeLocalId\<close> returns.\<close>

definition fresh_ideas :: "(nat \<Rightarrow> string) \<Rightarrow> jsval list \<Rightarrow> idea list" where
  "fresh_ideas mk ts =
     map (\<lambda>(k, t). \<lparr>idea_id = mk k, idea_text = t, savedId = JUndefined, savedAt = None\<rparr>)
       (enumerate 0 ts)"

text \<open>
  The normaliser.  \<^verbatim>\<open>list.map\<close> on a value that is not an array throws a \<^verbatim>\<open>TypeError\<close> (the
  wording of its message is the engine's; V8's is used).
\<close>

definition normalize :: "int \<Rightarrow> (nat \<Rightarrow> string) \<Rightarrow> jsval \<Rightarrow> js_error + idea list" where
  "normalize c mk result =
     (case pick_list result of
        JArr xs \<Rightarrow> Inr (fresh_ideas mk (normalized_texts c xs))
      | _ \<Rightarrow> Inl (TypeError ''list.map is not a function''))"

definition generate_failed :: "js_error \<Rightarrow> state \<Rightarrow> state" where
  "generate_failed e s =
     s\<lparr>generationStatus := StError,
       generationError := message_or e ''Failed to generate ideas.''\<rparr>"

text \<open>\<^verbatim>\<open>onGenerate\<close> after \<^verbatim>\<open>await generateIdeas\<close>; \<open>c\<close> is the \<^verbatim>\<open>count\<close> of its closure.\<close>

definition generate_resumed :: "int \<Rightarrow> env \<Rightarrow> state \<Rightarrow> state" where
  "generate_resumed c ev s =
     (case request (outcome ev) of
        Inl e \<Rightarrow> generate_failed e s
      | Inr result \<Rightarrow>
          (case normalize c (ids ev) result of
             Inl e \<Rightarrow> generate_failed e s
           | Inr normalized \<Rightarrow>
               showNotice ''success'' ''Ideas generated.''
                 (s\<lparr>ideas := normalized, generationStatus := StSuccess\<rparr>)))"

subsection \<open>Saved list\<close>

text \<open>\<^verbatim>\<open>Array.isArray(data) ? data : data?.items || []\<close>\<close>

definition saved_items :: "jsval \<Rightarrow> jsval" where
  "saved_items d = (if isArray d then d else js_or (js_get d ''items'') (JArr []))"

text \<open>The mount effect after \<^verbatim>\<open>await listSavedIdeas\<close> (the component stays mounted).\<close>

definition initialLoad_resumed :: "env \<Rightarrow> state \<Rightarrow> state" where
  "initialLoad_resumed ev s =
     (case request (outcome ev) of
        Inl e \<Rightarrow> s\<lparr>savedStatus := StError,
                   savedError := message_or e ''Failed to load saved ideas.''\<rparr>
      | Inr d \<Rightarrow> s\<lparr>savedIdeas := saved_items d, savedStatus := StSuccess\<rparr>)"

subsection \<open>Save\<close>

definition onSave :: "idea \<Rightarrow> state \<Rightarrow> state" where
  "onSave i s =
     call_api (SaveIdea (js_trim (topic s)) (idea_text i)) (PSave i)
       (setSaving (idea_id i) True (setIdeaError (idea_id i) [] s))"

text \<open>\<^verbatim>\<open>data?.id || data?.idea?.id || data?.idea_id || data?.ideaId\<close>\<close>

definition response_id :: "jsval \<Rightarrow> jsval" where
  "response_id d =
     js_or (js_or (js_or (js_get d ''id'') (js_get (js_get d ''idea'') ''id''))
              (js_get d ''idea_id''))
       (js_get d ''ideaId'')"

text \<open>The updater passed to \<^verbatim>\<open>setIdeas\<close>; \<open>t\<close> is \<^verbatim>\<open>new Date().toISOString()\<close>.\<close>

definition mark_saved :: "string \<Rightarrow> jsval \<Rightarrow> string \<Rightarrow> idea list \<Rightarrow> idea list" where
  "mark_saved i sid t prev =
     map (\<lambda>it. if idea_id it = i
               then it\<lparr>savedId := js_or (js_or sid (savedId it)) (JStr (idea_id it)),
                       savedAt := Some t\<rparr>
               else it)
       prev"

text \<open>\<^verbatim>\<open>onSave\<close> after \<^verbatim>\<open>await saveIdea\<close>.\<close>

definition save_resumed :: "idea \<Rightarrow> env \<Rightarrow> state \<Rightarrow> state" where
  "save_resumed i ev s =
     (case request (outcome ev) of
        Inl e \<Rightarrow>
          setSaving (idea_id i) False
            (showNotice ''error'' ''Save failed.''
               (setIdeaError (idea_id i) (message_or e ''Failed to save.'') s))
      | Inr d \<Rightarrow>
          call_api ListSavedIdeas (PRefresh i)
            ((showNotice ''success'' ''Saved.'' s)
               \<lparr>ideas := mark_saved (idea_id i) (response_id d) (now ev) (ideas s)\<rparr>))"

text \<open>\<^verbatim>\<open>onSave\<close> after \<^verbatim>\<open>await listSavedIdeas\<close>: the inner \<^verbatim>\<open>try\<close>, then \<^verbatim>\<open>finally\<close>.\<close>

definition refresh_resumed :: "idea \<Rightarrow> env \<Rightarrow> state \<Rightarrow> state" where
  "refresh_resumed i ev s =
     setSaving (idea_id i) False
       (case request (outcome ev) of
          Inl e \<Rightarrow> s
        | Inr d \<Rightarrow> s\<lparr>savedIdeas := saved_items d, savedStatus := StSuccess\<rparr>)"

subsection \<open>Share\<close>

definition onShare :: "idea \<Rightarrow> state \<Rightarrow> state" where
  "onShare i s =
     (let sid = savedId i in
      if \<not> truthy sid
      then setIdeaError (idea_id i) ''Save the idea before sharing.'' s
      else call_api (ShareIdea sid) (PShare i)
             (setSharing (idea_id i) True (setIdeaError (idea_id i) [] s)))"

definition share_failed :: "idea \<Rightarrow> js_error \<Rightarrow> state \<Rightarrow> state" where
  "share_failed i e s =
     setSharing (idea_id i) False
       (showNotice ''error'' ''Share failed.''
          (setIdeaError (idea_id i) (message_or e ''Failed to share.'') s))"

text \<open>\<^verbatim>\<open>data?.url || data?.share_url || data?.shareUrl || data?.link || ""\<close>\<close>

definition share_url :: "jsval \<Rightarrow> jsval" where
  "share_url d =
     js_or (js_or (js_or (js_or (js_get d ''url'') (js_get d ''share_url''))
                     (js_get d ''shareUrl''))
              (js_get d ''link''))
       (JStr [])"

text \<open>\<^verbatim>\<open>onShare\<close> after \<^verbatim>\<open>await shareIdea\<close>; the url is truthy when the clipboard is called.\<close>

definition share_resumed :: "idea \<Rightarrow> env \<Rightarrow> state \<Rightarrow> state" where
  "share_resumed i ev s =
     (case shareIdea (savedId i) (outcome ev) of
        Inl e \<Rightarrow> share_failed i e s
      | Inr d \<Rightarrow>
          (let url = share_url d in
           if \<not> truthy url
           then share_failed i (new_Error ''Backend did not return a share URL.'') s
           else s\<lparr>clipboard := clipboard s @ [url],
                  pending := pending s @ [PShareCopy i url]\<rparr>))"

text \<open>
  The promise of \<^verbatim>\<open>copyToClipboard(text)\<close> for a truthy text: rejected when the text does not
  convert to a string (\<^verbatim>\<open>writeText\<close> and the textarea fallback both convert it) or when
  the write fails.
\<close>

definition copyToClipboard :: "jsval \<Rightarrow> js_error option \<Rightarrow> js_error option" where
  "copyToClipboard t written =
     (case js_toString t of Inl e \<Rightarrow> Some e | Inr text \<Rightarrow> written)"

text \<open>\<^verbatim>\<open>onShare\<close> after \<^verbatim>\<open>await copyToClipboard\<close>.\<close>

definition shareCopy_resumed :: "idea \<Rightarrow> jsval \<Rightarrow> env \<Rightarrow> state \<Rightarrow> state" where
  "shareCopy_resumed i url ev s =
     (case copyToClipboard url (clip ev) of
        Some e \<Rightarrow> share_failed i e s
      | None \<Rightarrow>
          setSharing (idea_id i) False
            (showNotice ''success'' ''Share link copied to clipboard.'' s))"

subsection \<open>Export\<close>

text \<open>
  \<^verbatim>\<open>(topic.trim() || "idea").slice(0, 40).replace(/[^\w\- ]+/g, "").trim() || "idea"\<close>
\<close>

definition safeName :: "string \<Rightarrow> string" where
  "safeName tp =
     (let t = js_trim tp;
          n = js_trim (filter (\<lambda>c. is_word c \<or> c = CHR ''-'' \<or> c = CHR '' '')
                         (take 40 (if t \<noteq> [] then t else ''idea'')))
      in if n \<noteq> [] then n else ''idea'')"

definition export_ext :: "string \<Rightarrow> string" where
  "export_ext format =
     (if format = ''md'' then ''md'' else if format = ''txt'' then ''txt'' else ''json'')"

text \<open>
  \<^verbatim>\<open>onExport\<close>.  The client-side branch runs outside any \<^verbatim>\<open>try\<close>: where
  \<^verbatim>\<open>downloadTextFile\<close> throws, the handler's promise is rejected, nothing catches it and
  the state is left as it was.
\<close>

definition onExport :: "idea \<Rightarrow> string \<Rightarrow> state \<Rightarrow> state" where
  "onExport i format s =
     (let sid = savedId i in
      if \<not> truthy sid then
        (let base = safeName (topic s) @ ''-'' @ slice_last 6 (idea_id i) in
         if format = ''txt'' then
           (case downloadTextFile (JStr (base @ ''.txt'')) (Value (idea_text i))
                   (JStr ''text/plain;charset=utf-8'') s of
              Inl e \<Rightarrow> s
            | Inr s' \<Rightarrow> showNotice ''success'' ''Exported as .txt'' s')
         else if format = ''json'' then
           (case downloadTextFile (JStr (base @ ''.json''))
                   (Stringify
                      (JObj [(''topic'', JStr (js_trim (topic s))), (''idea'', idea_text i)]))
                   (JStr ''application/json;charset=utf-8'') s of
              Inl e \<Rightarrow> s
            | Inr s' \<Rightarrow> showNotice ''success'' ''Exported as .json'' s')
         else setIdeaError (idea_id i) ''Save the idea before exporting in this format.'' s)
      else call_api (ExportIdea sid format) (PExport i format)
             (setExporting (idea_id i) True (setIdeaError (idea_id i) [] s)))"

definition export_failed :: "idea \<Rightarrow> js_error \<Rightarrow> state \<Rightarrow> state" where
  "export_failed i e s =
     setExporting (idea_id i) False
       (showNotice ''error'' ''Export failed.''
          (setIdeaError (idea_id i) (message_or e ''Failed to export.'') s))"

text \<open>
  The default file name \<^verbatim>\<open>`idea-${id}.${...}`\<close>, evaluated only where the response has no
  truthy \<^verbatim>\<open>filename\<close>; the template converts the identifier to a string.
\<close>

definition export_filename :: "jsval \<Rightarrow> jsval \<Rightarrow> string \<Rightarrow> js_error + jsval" where
  "export_filename d sid format =
     (if truthy (js_get d ''filename'') then Inr (js_get d ''filename'')
      else case js_toString sid of
             Inl e \<Rightarrow> Inl e
           | Inr t \<Rightarrow> Inr (JStr (''idea-'' @ t @ ''.'' @ export_ext format)))"

text \<open>
  \<^verbatim>\<open>onExport\<close> after \<^verbatim>\<open>await exportIdea\<close>, all of it inside the \<^verbatim>\<open>try\<close>.
  \<^verbatim>\<open>JSON.stringify\<close> of a response body is a non-empty string, so the last alternative for
  \<^verbatim>\<open>content\<close> is always taken when reached.
\<close>

definition export_resumed :: "idea \<Rightarrow> string \<Rightarrow> env \<Rightarrow> state \<Rightarrow> state" where
  "export_resumed i format ev s =
     (case exportIdea (savedId i) (outcome ev) of
        Inl e \<Rightarrow> export_failed i e s
      | Inr d \<Rightarrow>
          (let c = js_or (js_or (if typeof_string d then d else JNull) (js_get d ''content''))
                     (js_get d ''data'');
               src = (if truthy c then Value c else Stringify d);
               mt = js_or (js_get d ''mimeType'')
                      (JStr (if format = ''json'' then ''application/json;charset=utf-8''
                             else ''text/plain;charset=utf-8''))
           in case export_filename d (savedId i) format of
                Inl e \<Rightarrow> export_failed i e s
              | Inr fn \<Rightarrow>
                  (case downloadTextFile fn src mt s of
                     Inl e \<Rightarrow> export_failed i e s
                   | Inr s' \<Rightarrow>
                       setExporting (idea_id i) False
                         (showNotice ''success'' (''Exported '' @ toUpperCase format @ ''.'')
                            s'))))"

subsection \<open>Copy buttons\<close>

text \<open>
  \<^verbatim>\<open>copyToClipboard(text).then(() => showNotice("success", "Copied."))\<close>: the helper returns at
  once on a falsy text; a rejected promise is left rejected and nothing is shown.
\<close>

definition onCopy :: "jsval \<Rightarrow> state \<Rightarrow> state" where
  "onCopy t s =
     s\<lparr>clipboard := (if truthy t then clipboard s @ [t] else clipboard s),
       pending := pending s @ [PCopy t]\<rparr>"

definition copy_resumed :: "jsval \<Rightarrow> env \<Rightarrow> state \<Rightarrow> state" where
  "copy_resumed t ev s =
     (if truthy t \<and> copyToClipboard t (clip ev) \<noteq> None then s
      else showNotice ''success'' ''Copied.'' s)"

section \<open>Events\<close>

text \<open>
  The program is single-threaded: a handler runs to its next \<^verbatim>\<open>await\<close>, and a suspended
  handler resumes when its promise settles.  An event is an edit of an input, the call of a
  handler, the settling of the \<open>k\<close>-th suspended handler, or the notice timer firing.
\<close>

datatype event =
    SetTopic string
  | SetTone string
  | SetCount int
  | OnGenerate
  | OnSave idea
  | OnShare idea
  | OnExport idea string
  | OnCopy jsval
  | Settle nat env
  | NoticeTimeout

definition remove_nth :: "nat \<Rightarrow> 'a list \<Rightarrow> 'a list" where
  "remove_nth k xs = take k xs @ drop (Suc k) xs"

fun resume :: "pending \<Rightarrow> env \<Rightarrow> state \<Rightarrow> state" where
  "resume PInitialLoad ev s = initialLoad_resumed ev s"
| "resume (PGenerate c) ev s = generate_resumed c ev s"
| "resume (PSave i) ev s = save_resumed i ev s"
| "resume (PRefresh i) ev s = refresh_resumed i ev s"
| "resume (PShare i) ev s = share_resumed i ev s"
| "resume (PShareCopy i url) ev s = shareCopy_resumed i url ev s"
| "resume (PExport i format) ev s = export_resumed i format ev s"
| "resume (PCopy t) ev s = copy_resumed t ev s"

text \<open>One event; \<open>None\<close> when there is no \<open>k\<close>-th suspended handler to resume.\<close>

fun step :: "event \<Rightarrow> state \<Rightarrow> state option" where
  "step (SetTopic t) s = Some (s\<lparr>topic := t\<rparr>)"
| "step (SetTone t) s = Some (s\<lparr>tone := t\<rparr>)"
| "step (SetCount c) s = Some (s\<lparr>count := c\<rparr>)"
| "step OnGenerate s = Some (onGenerate s)"
| "step (OnSave i) s = Some (onSave i s)"
| "step (OnShare i) s = Some (onShare i s)"
| "step (OnExport i format) s = Some (onExport i format s)"
| "step (OnCopy t) s = Some (onCopy t s)"
| "step (Settle k ev) s =
     (if k < length (pending s)
      then Some (resume (pending s ! k) ev (s\<lparr>pending := remove_nth k (pending s)\<rparr>))
      else None)"
| "step NoticeTimeout s =
     (if noticeTimer s then Some (s\<lparr>notice := None, noticeTimer := False\<rparr>) else None)"

fun run :: "event list \<Rightarrow> state \<Rightarrow> state option" where
  "run [] s = Some s"
| "run (e # es) s = (case step e s of None \<Rightarrow> None | Some s' \<Rightarrow> run es s')"

subsection \<open>Events the rendered controls allow\<close>

text \<open>
  The handlers are reached through the rendered form: the submit button is disabled unless
  \<^verbatim>\<open>canGenerate\<close>; the idea cards are rendered when \<^verbatim>\<open>generationStatus\<close> is not
  \<^verbatim>\<open>"loading"\<close> and \<^verbatim>\<open>ideas\<close> is not empty; the Save, Share and Export buttons of a card are
  disabled while \<^verbatim>\<open>busy.saving\<close>, \<^verbatim>\<open>busy.sharing\<close>, \<^verbatim>\<open>busy.exporting\<close>; the export buttons
  pass \<^verbatim>\<open>"txt"\<close> or \<^verbatim>\<open>"json"\<close>; the selects offer six tones and the counts 3, 6, 9, 12.
\<close>

definition cards_shown :: "state \<Rightarrow> bool" where
  "cards_shown s \<longleftrightarrow> generationStatus s \<noteq> StLoading \<and> ideas s \<noteq> []"

fun ui_enabled :: "state \<Rightarrow> event \<Rightarrow> bool" where
  "ui_enabled s (SetTopic t) = True"
| "ui_enabled s (SetTone t) =
     (t \<in> set [''Creative'', ''Practical'', ''Technical'', ''Marketing'', ''Friendly'',
               ''Professional''])"
| "ui_enabled s (SetCount c) = (c \<in> set [3, 6, 9, 12])"
| "ui_enabled s OnGenerate = canGenerate s"
| "ui_enabled s (OnSave i) =
     (cards_shown s \<and> i \<in> set (ideas s) \<and> \<not> saving (busyByIdeaId s (idea_id i)))"
| "ui_enabled s (OnShare i) =
     (cards_shown s \<and> i \<in> set (ideas s) \<and> \<not> sharing (busyByIdeaId s (idea_id i)))"
| "ui_enabled s (OnExport i format) =
     (cards_shown s \<and> i \<in> set (ideas s) \<and> \<not> exporting (busyByIdeaId s (idea_id i))
      \<and> format \<in> set [''txt'', ''json''])"
| "ui_enabled s (OnCopy t) = True"
| "ui_enabled s (Settle k ev) = True"
| "ui_enabled s NoticeTimeout = True"

fun ui_run :: "event list \<Rightarrow> state \<Rightarrow> state option" where
  "ui_run [] s = Some s"
| "ui_run (e # es) s =
     (if ui_enabled s e
      then (case step e s of None \<Rightarrow> None | Some s' \<Rightarrow> ui_run es s')
      else None)"

subsection \<open>Handlers in flight\<close>

fun is_generate :: "pending \<Rightarrow> bool" where
  "is_generate (PGenerate c) = True"
| "is_generate p = False"

text \<open>A Save of record \<open>i\<close> is in flight from its call until its \<^verbatim>\<open>finally\<close> block.\<close>

fun is_save_of :: "string \<Rightarrow> pending \<Rightarrow> bool" where
  "is_save_of i (PSave it) = (idea_id it = i)"
| "is_save_of i (PRefresh it) = (idea_id it = i)"
| "is_save_of i p = False"

definition generates_in_flight :: "state \<Rightarrow> nat" where
  "generates_in_flight s = length (filter is_generate (pending s))"

definition saves_in_flight :: "string \<Rightarrow> state \<Rightarrow> nat" where
  "saves_in_flight i s = length (filter (is_save_of i) (pending s))"

section \<open>Auxiliary definitions\<close>

subsection \<open>The field choice as the specification words it\<close>

text \<open>
  Stated in the specification (section 4.2): the first \<^emph>\<open>non-empty\<close> matching field wins, in
  the order direct array, \<^verbatim>\<open>ideas\<close>, \<^verbatim>\<open>items\<close>.  Compared with \<open>pick_list\<close> below.
\<close>

fun nonempty_array :: "jsval \<Rightarrow> bool" where
  "nonempty_array (JArr (x # xs)) = True"
| "nonempty_array v = False"

definition pick_list_spec :: "jsval \<Rightarrow> jsval" where
  "pick_list_spec result =
     (if nonempty_array result then result
      else if nonempty_array (js_get result ''ideas'') then js_get result ''ideas''
      else if nonempty_array (js_get result ''items'') then js_get result ''items''
      else JArr [])"

subsection \<open>The error message as the specification words it\<close>

text \<open>
  Stated in the specification (section 4.1): the message prefers a structured \<^verbatim>\<open>detail\<close> or
  \<^verbatim>\<open>message\<close> field of the parsed body if present, then the raw text, then a generic
  \<^verbatim>\<open>"status N"\<close> string.  Compared with \<open>request_message\<close> below.
\<close>

fun present :: "jsval \<Rightarrow> string \<Rightarrow> bool" where
  "present (JObj kvs) k = (map_of kvs k \<noteq> None)"
| "present v k = False"

definition request_message_spec :: "jsval \<Rightarrow> nat \<Rightarrow> jsval" where
  "request_message_spec body st =
     (if present body ''detail'' then js_get body ''detail''
      else if present body ''message'' then js_get body ''message''
      else if typeof_string body then body
      else JStr (''Request failed with status '' @ show_nat st))"

subsection \<open>The file-name sanitiser as the specification words it\<close>

text \<open>
  Stated in the specification (section 4.3): the topic is sanitised by stripping the
  characters that are not word characters, spaces or hyphens, truncating to 40 characters,
  and defaulting to \<^verbatim>\<open>"idea"\<close> if empty.  Compared with \<open>safeName\<close> below.
\<close>

definition safeName_spec :: "string \<Rightarrow> string" where
  "safeName_spec tp =
     (let n = take 40 (filter (\<lambda>c. is_word c \<or> c = CHR ''-'' \<or> c = CHR '' '') tp)
      in if n = [] then ''idea'' else n)"

subsection \<open>Invariants of the states reached through the rendered controls\<close>

text \<open>
  A Generate is in flight exactly while \<^verbatim>\<open>generationStatus\<close> is \<^verbatim>\<open>"loading"\<close>, and the
  collection is empty for that long.
\<close>

definition gen_inv :: "state \<Rightarrow> bool" where
  "gen_inv s \<longleftrightarrow>
     generates_in_flight s = (if generationStatus s = StLoading then 1 else 0)
     \<and> (generationStatus s = StLoading \<longrightarrow> ideas s = [])"

text \<open>A Save of a record is in flight exactly while its \<^verbatim>\<open>saving\<close> flag is set.\<close>

definition save_inv :: "state \<Rightarrow> bool" where
  "save_inv s \<longleftrightarrow>
     (\<forall>i. saves_in_flight i s = (if saving (busyByIdeaId s i) then 1 else 0))"

fun is_save :: "pending \<Rightarrow> bool" where
  "is_save (PSave it) = True"
| "is_save (PRefresh it) = True"
| "is_save p = False"

subsection \<open>Concrete inputs\<close>

text \<open>Values at which the theorems below are instantiated.\<close>

definition local_ids :: "nat \<Rightarrow> string" where
  "local_ids k = ''local_'' @ show_nat k"

definition responded :: "nat \<Rightarrow> string \<Rightarrow> jsval \<Rightarrow> env" where
  "responded st txt v =
     \<lparr>outcome = Responded \<lparr>res_status = st, res_text = txt, res_json = Some v\<rparr>,
      clip = None, ids = local_ids, now = ''2024-05-01T10:00:00.000Z''\<rparr>"

definition rejected :: env where
  "rejected =
     \<lparr>outcome = Threw \<lparr>err_name = ''TypeError'', err_message = ''Failed to fetch'',
                        err_status = None, err_body = None\<rparr>,
      clip = None, ids = local_ids, now = ''2024-05-01T10:00:00.000Z''\<rparr>"

definition error_response :: response where
  "error_response =
     \<lparr>res_status = 500, res_text = ''{\"detail\":\"boom\"}'',
      res_json = Some (JObj [(''detail'', JStr ''boom'')])\<rparr>"

definition message_response :: response where
  "message_response =
     \<lparr>res_status = 404, res_text = ''{\"detail\":\"\",\"message\":\"no such idea\"}'',
      res_json = Some (JObj [(''detail'', JStr []), (''message'', JStr ''no such idea'')])\<rparr>"

definition text_response :: response where
  "text_response = \<lparr>res_status = 502, res_text = ''Bad Gateway'', res_json = None\<rparr>"

definition empty_response :: response where
  "empty_response = \<lparr>res_status = 503, res_text = [], res_json = None\<rparr>"

definition empty_detail_response :: response where
  "empty_detail_response =
     \<lparr>res_status = 500, res_text = ''{\"detail\":\"\"}'',
      res_json = Some (JObj [(''detail'', JStr [])])\<rparr>"

definition unprintable_detail_response :: response where
  "unprintable_detail_response =
     \<lparr>res_status = 422, res_text = ''{\"detail\":{\"toString\":1}}'',
      res_json = Some (JObj [(''detail'', JObj [(''toString'', JNum ''1'')])])\<rparr>"

definition empty_ideas_body :: jsval where
  "empty_ideas_body =
     JObj [(''ideas'', JArr []), (''items'', JArr [JObj [(''text'', JStr ''a'')]])]"

definition unsaved_idea :: idea where
  "unsaved_idea =
     \<lparr>idea_id = ''local_1700000000000_9f3a5c'', idea_text = JStr ''Loyalty card'',
      savedId = JUndefined, savedAt = None\<rparr>"

definition typed_topic :: state where
  "typed_topic = init\<lparr>topic := ''  Coffee shop: weekday traffic?  ''\<rparr>"

definition long_topic :: state where
  "long_topic =
     init\<lparr>topic := ''Coffee shop: loyalty cards, events, and weekday foot traffic''\<rparr>"

definition generated_idea :: idea where
  "generated_idea =
     \<lparr>idea_id = ''local_0'', idea_text = JStr ''a'', savedId = JUndefined, savedAt = None\<rparr>"

definition saved_idea :: idea where
  "saved_idea =
     \<lparr>idea_id = ''local_0'', idea_text = JStr ''a'', savedId = JStr ''r1'',
      savedAt = Some ''2024-05-01T10:00:00.000Z''\<rparr>"

definition saved_state :: state where
  "saved_state =
     init\<lparr>topic := ''cats'', ideas := [saved_idea], generationStatus := StSuccess,
          savedIdeas := JArr [JObj [(''id'', JStr ''r1''), (''text'', JStr ''a'')]],
          savedStatus := StSuccess, pending := []\<rparr>"

definition refreshing_state :: state where
  "refreshing_state =
     saved_state\<lparr>pending := [PRefresh saved_idea],
                 busyByIdeaId := (busyByIdeaId saved_state)
                   (''local_0'' := \<lparr>saving = True, sharing = False, exporting = False\<rparr>)\<rparr>"

text \<open>
  The saved list loads (empty), the user types a topic and generates one idea; then, in
  the second list, saves it.
\<close>

definition generated_once :: "event list" where
  "generated_once =
     [Settle 0 (responded 200 ''[]'' (JArr [])),
      SetTopic ''cats'', OnGenerate,
      Settle 0 (responded 200 ''[\"a\"]'' (JArr [JStr ''a'']))]"

definition generate_and_save :: "event list" where
  "generate_and_save =
     generated_once @
     [OnSave generated_idea,
      Settle 0 (responded 201 ''{\"id\":\"r1\"}'' (JObj [(''id'', JStr ''r1'')]))]"

section \<open>Evaluation and frame lemmas\<close>

lemmas run_defs =
  init_def onGenerate_def js_trim_def is_space_def call_api_def remove_nth_def
  generate_resumed_def request_def res_ok_def safeParseBody_def normalize_def pick_list_def
  js_or_def js_and_def fresh_ideas_def normalized_texts_def limit_def item_text_def
  showNotice_def Let_def canGenerate_def cards_shown_def onSave_def setSaving_def
  setIdeaBusy_def setIdeaError_def save_resumed_def refresh_resumed_def response_id_def
  mark_saved_def saved_items_def initialLoad_resumed_def responded_def rejected_def
  local_ids_def show_nat.simps generated_idea_def saved_idea_def generate_and_save_def
  generated_once_def

lemmas resumed_defs =
  initialLoad_resumed_def generate_resumed_def generate_failed_def save_resumed_def
  refresh_resumed_def share_resumed_def share_failed_def shareCopy_resumed_def
  copy_resumed_def

lemmas helper_defs =
  setIdeaError_def setIdeaBusy_def setSaving_def setSharing_def setExporting_def showNotice_def
  call_api_def

lemma filter_remove_nth:
  assumes "k < length xs"
  shows "length (filter P (remove_nth k xs)) + (if P (xs ! k) then 1 else 0)
           = length (filter P xs)"
proof -
  have "xs = take k xs @ xs ! k # drop (Suc k) xs"
    using assms by (simp add: id_take_nth_drop)
  then have "filter P xs
               = filter P (take k xs) @ filter P [xs ! k] @ filter P (drop (Suc k) xs)"
    by (metis append_Cons append_Nil filter_append)
  then show ?thesis
    by (simp add: remove_nth_def)
qed

section \<open>Transport adapter: the message of a failed request\<close>

lemma request_message_cases:
  "request_message b st =
     (if truthy (js_get b ''detail'') then js_get b ''detail''
      else if truthy (js_get b ''message'') then js_get b ''message''
      else if typeof_string b \<and> truthy b then b
      else JStr (''Request failed with status '' @ show_nat st))"
  by (cases b) (simp_all add: request_message_def js_or_def js_and_def)

text \<open>
  Claim C9 as stated fails, twice.  A \<^verbatim>\<open>detail\<close> field that is present but empty is passed
  over: on status 500 with body \<^verbatim>\<open>{"detail": ""}\<close> the message is the generic string, not
  the field.  And on status 422 with body \<^verbatim>\<open>{"detail": {"toString": 1}}\<close> the chosen value
  does not convert to a string: \<^verbatim>\<open>new Error(message)\<close> throws a \<^verbatim>\<open>TypeError\<close>, which
  \<^verbatim>\<open>request\<close> rethrows, and that error carries neither the status nor the body.
\<close>

theorem request_error_message_counterexample:
  "present (safeParseBody empty_detail_response) ''detail'' \<and>
   request_message_spec (safeParseBody empty_detail_response) 500 = JStr [] \<and>
   request (Responded empty_detail_response) =
     Inl \<lparr>err_name = ''Error'', err_message = ''Request failed with status 500'',
          err_status = Some 500, err_body = Some (JObj [(''detail'', JStr [])])\<rparr> \<and>
   request (Responded unprintable_detail_response) =
     Inl \<lparr>err_name = ''TypeError'',
          err_message = ''Cannot convert object to primitive value'',
          err_status = None, err_body = None\<rparr>"
  by (simp add: empty_detail_response_def unprintable_detail_response_def safeParseBody_def
        request_message_spec_def request_def res_ok_def request_message_cases new_Error_def
        TypeError_def show_nat.simps)

text \<open>
  Claim C9, amended.  On a response whose status is not 2xx the body is \<^verbatim>\<open>null\<close> for an
  empty text, the parsed value when the text parses, and the raw text otherwise.  The
  value handed to \<^verbatim>\<open>new Error\<close> is, in this order of preference: the \<^verbatim>\<open>detail\<close> field of a
  structured body when it is truthy, else its \<^verbatim>\<open>message\<close> field when that is truthy, else
  the body itself when it is a non-empty string, else \<^verbatim>\<open>"Request failed with status N"\<close>.
  When that value converts to a string, \<^verbatim>\<open>request\<close> throws an error with that string as
  message that carries the status and the body (a chosen string is the message as it is);
  when it does not convert, \<^verbatim>\<open>request\<close> throws the conversion's \<^verbatim>\<open>TypeError\<close> instead.
\<close>

theorem request_error_message:
  assumes "\<not> res_ok r"
  shows "(let body = (if res_text r = [] then JNull
                      else case res_json r of Some v \<Rightarrow> v | None \<Rightarrow> JStr (res_text r));
              chosen =
                (if truthy (js_get body ''detail'') then js_get body ''detail''
                 else if truthy (js_get body ''message'') then js_get body ''message''
                 else if typeof_string body \<and> truthy body then body
                 else JStr (''Request failed with status '' @ show_nat (res_status r)))
          in request (Responded r) =
               (case js_toString chosen of
                  Inl e \<Rightarrow> Inl e
                | Inr m \<Rightarrow>
                    Inl \<lparr>err_name = ''Error'', err_message = m,
                         err_status = Some (res_status r), err_body = Some body\<rparr>)
             \<and> (case chosen of
                   JStr m \<Rightarrow>
                     request (Responded r) =
                       Inl \<lparr>err_name = ''Error'', err_message = m,
                            err_status = Some (res_status r), err_body = Some body\<rparr>
                 | _ \<Rightarrow> True))"
proof -
  define body where
    "body = (if res_text r = [] then JNull
             else case res_json r of Some v \<Rightarrow> v | None \<Rightarrow> JStr (res_text r))"
  define chosen where
    "chosen =
       (if truthy (js_get body ''detail'') then js_get body ''detail''
        else if truthy (js_get body ''message'') then js_get body ''message''
        else if typeof_string body \<and> truthy body then body
        else JStr (''Request failed with status '' @ show_nat (res_status r)))"
  have thrown: "request (Responded r) =
      (case js_toString chosen of
         Inl e \<Rightarrow> Inl e
       | Inr m \<Rightarrow>
           Inl \<lparr>err_name = ''Error'', err_message = m,
                err_status = Some (res_status r), err_body = Some body\<rparr>)"
    using assms
    by (simp add: request_def safeParseBody_def new_Error_def Let_def request_message_cases
          body_def chosen_def split: sum.splits)
  have "case chosen of
          JStr m \<Rightarrow>
            request (Responded r) =
              Inl \<lparr>err_name = ''Error'', err_message = m,
                   err_status = Some (res_status r), err_body = Some body\<rparr>
        | _ \<Rightarrow> True"
    by (cases chosen) (simp_all add: thrown)
  with thrown show ?thesis
    unfolding Let_def body_def [symmetric] chosen_def [symmetric] by simp
qed

theorem request_error_message_witness:
  "\<not> res_ok error_response \<and>
   request (Responded error_response) =
     Inl \<lparr>err_name = ''Error'', err_message = ''boom'', err_status = Some 500,
          err_body = Some (JObj [(''detail'', JStr ''boom'')])\<rparr> \<and>
   \<not> res_ok message_response \<and>
   request (Responded message_response) =
     Inl \<lparr>err_name = ''Error'', err_message = ''no such idea'', err_status = Some 404,
          err_body =
            Some (JObj [(''detail'', JStr []), (''message'', JStr ''no such idea'')])\<rparr> \<and>
   \<not> res_ok text_response \<and>
   request (Responded text_response) =
     Inl \<lparr>err_name = ''Error'', err_message = ''Bad Gateway'', err_status = Some 502,
          err_body = Some (JStr ''Bad Gateway'')\<rparr> \<and>
   \<not> res_ok empty_response \<and>
   request (Responded empty_response) =
     Inl \<lparr>err_name = ''Error'', err_message = ''Request failed with status 503'',
          err_status = Some 503, err_body = Some JNull\<rparr>"
  using request_error_message [of error_response] request_error_message [of message_response]
    request_error_message [of text_response] request_error_message [of empty_response]
  by (simp add: error_response_def message_response_def text_response_def empty_response_def
        res_ok_def show_nat.simps Let_def)

section \<open>Save, Share and Export of a single record\<close>

text \<open>
  Claim C10.  \<^verbatim>\<open>onSave\<close> sends the trimmed value the topic input has when Save is invoked:
  from any state (whatever topic the records were generated under), editing the topic to
  \<open>t\<close> and then saving record \<open>i\<close> issues \<^verbatim>\<open>saveIdea({topic: t.trim(), idea: i.text})\<close>.
\<close>

theorem save_sends_current_topic:
  "map_option requests (run [SetTopic t, OnSave i] s) =
     Some (requests s @ [SaveIdea (js_trim t) (idea_text i)])"
  by (simp add: onSave_def call_api_def setSaving_def setIdeaBusy_def setIdeaError_def)

text \<open>
  Claim C5.  Share on a record without a remote identifier only sets the record's error to
  \<^verbatim>\<open>"Save the idea before sharing."\<close>: no service call is issued, no handler is left
  suspended, and the records are unchanged.
\<close>

theorem share_unsaved:
  assumes "\<not> truthy (savedId i)"
  shows "step (OnShare i) s =
           Some (s\<lparr>errorByIdeaId :=
                     (errorByIdeaId s)(idea_id i := ''Save the idea before sharing.'')\<rparr>)
         \<and> map_option requests (step (OnShare i) s) = Some (requests s)
         \<and> map_option pending (step (OnShare i) s) = Some (pending s)
         \<and> map_option ideas (step (OnShare i) s) = Some (ideas s)"
  using assms by (simp add: onShare_def setIdeaError_def)

theorem share_unsaved_witness:
  "\<not> truthy (savedId unsaved_idea) \<and>
   map_option requests (step (OnShare unsaved_idea) init) = Some [ListSavedIdeas] \<and>
   map_option (\<lambda>s. errorByIdeaId s (idea_id unsaved_idea)) (step (OnShare unsaved_idea) init)
     = Some ''Save the idea before sharing.''"
  using share_unsaved [of unsaved_idea init]
  by (simp add: unsaved_idea_def init_def)

subsection \<open>The file name of a client-side export\<close>

lemma set_js_trim: "set (js_trim s) \<subseteq> set s"
  by (auto simp: js_trim_def dest!: set_dropWhileD)

lemma length_js_trim: "length (js_trim s) \<le> length s"
  unfolding js_trim_def
  by (metis length_dropWhile_le length_rev order_trans)

lemma js_trim_Nil: "js_trim [] = []"
  by (simp add: js_trim_def)

lemma safeName_idea:
  "js_trim (filter (\<lambda>c. is_word c \<or> c = CHR ''-'' \<or> c = CHR '' '') (take 40 ''idea''))
     = ''idea''"
  by (simp add: js_trim_def is_word_def is_space_def)

lemma safeName_eq:
  "safeName tp =
     (let n = js_trim (filter (\<lambda>c. is_word c \<or> c = CHR ''-'' \<or> c = CHR '' '')
                         (take 40 (js_trim tp)))
      in if n = [] then ''idea'' else n)"
proof (cases "js_trim tp = []")
  case True
  then show ?thesis
    by (simp only: safeName_def Let_def safeName_idea js_trim_Nil take_Nil filter.simps
          simp_thms if_True if_False list.simps)
next
  case False
  then show ?thesis
    by (simp add: safeName_def Let_def)
qed

lemma safeName_chars:
  "set (safeName tp) \<subseteq> {c. is_word c \<or> c = CHR ''-'' \<or> c = CHR '' ''}"
proof -
  have idea: "set ''idea'' \<subseteq> {c. is_word c \<or> c = CHR ''-'' \<or> c = CHR '' ''}"
    by (simp add: is_word_def)
  have "set (js_trim (filter (\<lambda>c. is_word c \<or> c = CHR ''-'' \<or> c = CHR '' '') xs))
          \<subseteq> {c. is_word c \<or> c = CHR ''-'' \<or> c = CHR '' ''}" for xs
    using set_js_trim [of "filter (\<lambda>c. is_word c \<or> c = CHR ''-'' \<or> c = CHR '' '') xs"]
    by auto
  with idea show ?thesis
    unfolding safeName_def Let_def by (auto split: if_split)
qed

lemma safeName_length: "length (safeName tp) \<le> 40"
proof -
  have "length (js_trim (filter P (take 40 xs))) \<le> 40" for P and xs :: string
    using length_js_trim [of "filter P (take 40 xs)"] length_filter_le [of P "take 40 xs"]
    by simp
  then show ?thesis
    unfolding safeName_def Let_def by (simp split: if_split)
qed

lemma safeName_nonempty: "safeName tp \<noteq> []"
  unfolding safeName_def Let_def by simp

text \<open>
  Claim C6 as stated fails: for a topic of 60 characters with punctuation among its first
  40, stripping and then truncating to 40 characters gives
  \<^verbatim>\<open>"Coffee shop loyalty cards events and wee"\<close>, but the code truncates first and strips
  afterwards, and names the file after \<^verbatim>\<open>"Coffee shop loyalty cards events and"\<close>.
\<close>

theorem export_name_counterexample:
  "safeName_spec (topic long_topic) = ''Coffee shop loyalty cards events and wee'' \<and>
   safeName (topic long_topic) = ''Coffee shop loyalty cards events and'' \<and>
   map_option (map filename \<circ> downloads) (step (OnExport unsaved_idea ''txt'') long_topic)
     = Some [''Coffee shop loyalty cards events and-9f3a5c.txt'']"
  by (simp add: long_topic_def unsaved_idea_def init_def safeName_spec_def safeName_def
        onExport_def downloadTextFile_def showNotice_def slice_last_def js_trim_def
        is_space_def is_word_def Let_def)

text \<open>
  Claim C6, amended.  Export of a record without a remote identifier with format \<^verbatim>\<open>txt\<close>
  issues no service call and, where the record's text converts to a string (a text that is
  a string is the content as it is), downloads one file named \<^verbatim>\<open>safeName-last6.txt\<close>: the
  sanitised topic (the first 40 characters of the trimmed topic, then stripped of every
  character other than a word character, space or hyphen and trimmed again, \<^verbatim>\<open>"idea"\<close> when
  nothing is left: at most 40 allowed characters, never empty) and the last 6 characters of
  the local id; where the text does not convert, nothing is downloaded and the state is left
  as it was.  With format \<^verbatim>\<open>md\<close> it only sets the record's error to
  \<^verbatim>\<open>"Save the idea before exporting in this format."\<close> and downloads nothing.
\<close>

theorem export_unsaved:
  assumes "\<not> truthy (savedId i)"
  shows "step (OnExport i ''txt'') s =
           Some (case js_toString (idea_text i) of
                   Inl e \<Rightarrow> s
                 | Inr t \<Rightarrow>
                     showNotice ''success'' ''Exported as .txt''
                       (s\<lparr>downloads := downloads s @
                            [\<lparr>filename =
                                safeName (topic s) @ ''-'' @ slice_last 6 (idea_id i) @ ''.txt'',
                              content = Text t,
                              mimeType = ''text/plain;charset=utf-8''\<rparr>]\<rparr>))
         \<and> (case idea_text i of
               JStr t \<Rightarrow>
                 map_option downloads (step (OnExport i ''txt'') s) =
                   Some (downloads s @
                     [\<lparr>filename =
                         safeName (topic s) @ ''-'' @ slice_last 6 (idea_id i) @ ''.txt'',
                       content = Text t,
                       mimeType = ''text/plain;charset=utf-8''\<rparr>])
             | _ \<Rightarrow> True)
         \<and> map_option requests (step (OnExport i ''txt'') s) = Some (requests s)
         \<and> safeName (topic s) =
             (let n = js_trim (filter (\<lambda>c. is_word c \<or> c = CHR ''-'' \<or> c = CHR '' '')
                                 (take 40 (js_trim (topic s))))
              in if n = [] then ''idea'' else n)
         \<and> set (safeName (topic s)) \<subseteq> {c. is_word c \<or> c = CHR ''-'' \<or> c = CHR '' ''}
         \<and> length (safeName (topic s)) \<le> 40
         \<and> safeName (topic s) \<noteq> []
         \<and> step (OnExport i ''md'') s =
             Some (s\<lparr>errorByIdeaId := (errorByIdeaId s)
                      (idea_id i := ''Save the idea before exporting in this format.'')\<rparr>)
         \<and> map_option downloads (step (OnExport i ''md'') s) = Some (downloads s)
         \<and> map_option requests (step (OnExport i ''md'') s) = Some (requests s)"
proof -
  have t1: "onExport i ''txt'' s =
           (case js_toString (idea_text i) of
              Inl e \<Rightarrow> s
            | Inr t \<Rightarrow>
                showNotice ''success'' ''Exported as .txt''
                  (s\<lparr>downloads := downloads s @
                       [\<lparr>filename =
                           safeName (topic s) @ ''-'' @ slice_last 6 (idea_id i) @ ''.txt'',
                         content = Text t,
                         mimeType = ''text/plain;charset=utf-8''\<rparr>]\<rparr>))"
    using assms by (simp add: onExport_def downloadTextFile_def Let_def split: sum.splits)
  have t2: "onExport i ''md'' s = s\<lparr>errorByIdeaId := (errorByIdeaId s)
                      (idea_id i := ''Save the idea before exporting in this format.'')\<rparr>"
    using assms by (simp add: onExport_def setIdeaError_def Let_def)
  have t3: "case idea_text i of
              JStr t \<Rightarrow>
                map_option downloads (step (OnExport i ''txt'') s) =
                  Some (downloads s @
                    [\<lparr>filename =
                        safeName (topic s) @ ''-'' @ slice_last 6 (idea_id i) @ ''.txt'',
                      content = Text t,
                      mimeType = ''text/plain;charset=utf-8''\<rparr>])
            | _ \<Rightarrow> True"
    by (cases "idea_text i") (simp_all add: t1 showNotice_def)
  have t4: "map_option requests (step (OnExport i ''txt'') s) = Some (requests s)"
    by (simp add: t1 showNotice_def split: sum.splits)
  show ?thesis
    using safeName_eq [of "topic s"] safeName_chars [of "topic s"]
      safeName_length [of "topic s"] safeName_nonempty [of "topic s"] t3 t4
    by (simp add: t1 t2)
qed

theorem export_unsaved_witness:
  "\<not> truthy (savedId unsaved_idea) \<and>
   map_option downloads (step (OnExport unsaved_idea ''txt'') typed_topic)
     = Some [\<lparr>filename = ''Coffee shop weekday traffic-9f3a5c.txt'',
               content = Text ''Loyalty card'',
               mimeType = ''text/plain;charset=utf-8''\<rparr>] \<and>
   map_option requests (step (OnExport unsaved_idea ''txt'') typed_topic)
     = Some [ListSavedIdeas] \<and>
   map_option downloads (step (OnExport unsaved_idea ''md'') typed_topic) = Some []"
  using export_unsaved [of unsaved_idea typed_topic]
  by (simp add: unsaved_idea_def typed_topic_def init_def showNotice_def slice_last_def
        js_trim_def is_space_def is_word_def Let_def)

section \<open>Response normaliser\<close>

lemma pick_list_cases:
  "pick_list r =
     (if isArray r then r
      else if truthy (js_get r ''ideas'') then js_get r ''ideas''
      else if truthy (js_get r ''items'') then js_get r ''items''
      else JArr [])"
  by (cases r) (simp_all add: pick_list_def js_or_def js_and_def)

lemma item_text_cases:
  "item_text it =
     (if typeof_string it then it
      else if truthy (js_get it ''text'') then js_get it ''text''
      else if truthy (js_get it ''idea'') then js_get it ''idea''
      else JStr [])"
  by (simp add: item_text_def js_or_def)

lemma item_text_wrapped:
  assumes "typeof_string x"
    and "filter truthy (map item_text (map (\<lambda>x. JObj [(''text'', x)]) xs))
           = filter truthy (map item_text xs)"
  shows "filter truthy (map item_text (map (\<lambda>x. JObj [(''text'', x)]) (x # xs)))
           = filter truthy (map item_text (x # xs))"
  using assms by (cases x) (simp_all add: item_text_def js_or_def)

lemma texts_wrapped:
  "\<forall>x \<in> set xs. typeof_string x \<Longrightarrow>
   filter truthy (map item_text (map (\<lambda>x. JObj [(''text'', x)]) xs))
     = filter truthy (map item_text xs)"
proof (induction xs)
  case Nil
  then show ?case by simp
next
  case (Cons x xs)
  then show ?case using item_text_wrapped [of x xs] by simp
qed

lemma texts_strings:
  "\<forall>x \<in> set xs. typeof_string x \<Longrightarrow> map item_text xs = xs"
  by (induction xs) (simp_all add: item_text_def)

text \<open>
  Claim C4 as stated fails: where the response carries an empty \<^verbatim>\<open>ideas\<close> array and a
  non-empty \<^verbatim>\<open>items\<close> array, the first non-empty field is \<^verbatim>\<open>items\<close>, but the code takes
  \<^verbatim>\<open>ideas\<close> (an empty array is truthy) and the result is empty.
\<close>

theorem first_nonempty_field_counterexample:
  "pick_list_spec empty_ideas_body = JArr [JObj [(''text'', JStr ''a'')]] \<and>
   pick_list empty_ideas_body = JArr [] \<and>
   normalize 6 local_ids empty_ideas_body = Inr []"
  by (simp add: empty_ideas_body_def pick_list_spec_def pick_list_def normalize_def js_or_def
        js_and_def normalized_texts_def fresh_ideas_def)

text \<open>
  Claim C4, amended.  A list of strings \<open>xs\<close> normalises to the same records whether it
  arrives bare, under \<^verbatim>\<open>ideas\<close>, or under \<^verbatim>\<open>items\<close> as objects \<^verbatim>\<open>{text: x}\<close> (for
  \<^verbatim>\<open>["a","b"]\<close>: the same two records).  In general the first \<^emph>\<open>truthy\<close> field wins in the
  order direct array, \<^verbatim>\<open>ideas\<close>, \<^verbatim>\<open>items\<close> (an empty array is truthy); an item that is not a
  string and has neither a truthy \<^verbatim>\<open>text\<close> nor a truthy \<^verbatim>\<open>idea\<close> becomes the empty string and
  is filtered out; and the result is cut to \<open>max 1 count\<close> entries for a count other than 0
  (6 entries for count 0).
\<close>

theorem normalize_shapes:
  assumes "\<forall>x \<in> set xs. typeof_string x"
  shows "normalize c mk (JArr xs) = Inr (fresh_ideas mk (take (limit c) (filter truthy xs)))
       \<and> normalize c mk (JObj [(''ideas'', JArr xs)]) = normalize c mk (JArr xs)
       \<and> normalize c mk (JObj [(''items'', JArr (map (\<lambda>x. JObj [(''text'', x)]) xs))])
           = normalize c mk (JArr xs)
       \<and> pick_list r =
           (if isArray r then r
            else if truthy (js_get r ''ideas'') then js_get r ''ideas''
            else if truthy (js_get r ''items'') then js_get r ''items''
            else JArr [])
       \<and> item_text it =
           (if typeof_string it then it
            else if truthy (js_get it ''text'') then js_get it ''text''
            else if truthy (js_get it ''idea'') then js_get it ''idea''
            else JStr [])
       \<and> normalized_texts c ys = take (limit c) (filter truthy (map item_text ys))
       \<and> limit c = (if c = 0 then 6 else nat (max 1 c))"
proof -
  have bare: "normalize c mk (JArr xs)
                = Inr (fresh_ideas mk (take (limit c) (filter truthy xs)))"
    using texts_strings [OF assms]
    by (simp add: normalize_def pick_list_cases normalized_texts_def)
  have under_ideas: "normalize c mk (JObj [(''ideas'', JArr xs)]) = normalize c mk (JArr xs)"
    by (simp add: normalize_def pick_list_cases)
  have under_items:
    "normalize c mk (JObj [(''items'', JArr (map (\<lambda>x. JObj [(''text'', x)]) xs))])
       = normalize c mk (JArr xs)"
    using texts_wrapped [OF assms]
    by (simp add: normalize_def pick_list_cases normalized_texts_def)
  show ?thesis
    using bare under_ideas under_items pick_list_cases [of r] item_text_cases [of it]
    by (simp add: normalized_texts_def limit_def)
qed

theorem normalize_shapes_witness:
  "typeof_string (JStr ''a'') \<and> typeof_string (JStr ''b'') \<and>
   normalize 6 local_ids (JArr [JStr ''a'', JStr ''b'']) =
     Inr [\<lparr>idea_id = ''local_0'', idea_text = JStr ''a'', savedId = JUndefined,
           savedAt = None\<rparr>,
          \<lparr>idea_id = ''local_1'', idea_text = JStr ''b'', savedId = JUndefined,
           savedAt = None\<rparr>] \<and>
   normalize 6 local_ids (JObj [(''ideas'', JArr [JStr ''a'', JStr ''b''])]) =
     normalize 6 local_ids (JArr [JStr ''a'', JStr ''b'']) \<and>
   normalize 6 local_ids
     (JObj [(''items'', JArr [JObj [(''text'', JStr ''a'')], JObj [(''text'', JStr ''b'')]])]) =
     normalize 6 local_ids (JArr [JStr ''a'', JStr ''b''])"
  using normalize_shapes [of "[JStr ''a'', JStr ''b'']" 6 local_ids]
  by (simp add: fresh_ideas_def limit_def local_ids_def show_nat.simps)

section \<open>A second Save, and the refresh after a Save\<close>

text \<open>
  Claim C3 as stated fails: the user generates one idea and saves it (the service answers
  with id \<^verbatim>\<open>r1\<close>), then saves it again and the service answers with id \<^verbatim>\<open>r2\<close>; the record's
  remote identifier changes from \<^verbatim>\<open>r1\<close> to \<^verbatim>\<open>r2\<close>.
\<close>

theorem second_save_counterexample:
  "map_option (map savedId \<circ> ideas)
     (ui_run (generate_and_save @ [Settle 0 (responded 200 ''[]'' (JArr []))]) init)
     = Some [JStr ''r1''] \<and>
   map_option (map savedId \<circ> ideas)
     (ui_run (generate_and_save @
        [Settle 0 (responded 200 ''[]'' (JArr [])),
         OnSave saved_idea,
         Settle 0 (responded 201 ''{\"id\":\"r2\"}'' (JObj [(''id'', JStr ''r2'')])),
         Settle 0 (responded 200 ''[]'' (JArr []))]) init)
     = Some [JStr ''r2'']"
  by (simp add: run_defs)

text \<open>
  Claim C3, amended.  For a record that already has a remote identifier, a Save that runs
  on its own and whose service call succeeds does not fail (the record's error stays
  cleared and the notice reads \<^verbatim>\<open>"Saved."\<close>); the identifier becomes the one carried by the
  new response when the response carries one, and is kept otherwise; it is never cleared,
  and the record's local id and text are unchanged.
\<close>

theorem second_save_identifier:
  assumes "j < length (ideas s)" and "ideas s ! j = i" and "truthy (savedId i)"
    and "request (outcome ev) = Inr d"
  shows "\<exists>s'. run [OnSave i, Settle (length (pending s)) ev] s = Some s'
           \<and> savedId (ideas s' ! j) =
               (if truthy (response_id d) then response_id d else savedId i)
           \<and> truthy (savedId (ideas s' ! j))
           \<and> idea_id (ideas s' ! j) = idea_id i \<and> idea_text (ideas s' ! j) = idea_text i
           \<and> errorByIdeaId s' (idea_id i) = []
           \<and> notice s' = Some (''success'', ''Saved.'')"
  using assms
  by (simp add: onSave_def call_api_def setSaving_def setIdeaBusy_def setIdeaError_def
        remove_nth_def save_resumed_def showNotice_def mark_saved_def js_or_def)

theorem second_save_identifier_witness:
  "0 < length (ideas saved_state) \<and> ideas saved_state ! 0 = saved_idea
   \<and> truthy (savedId saved_idea)
   \<and> request (outcome (responded 200 ''{\"ok\":true}'' (JObj [(''ok'', JBool True)])))
       = Inr (JObj [(''ok'', JBool True)])
   \<and> (\<exists>s'. run [OnSave saved_idea,
                 Settle (length (pending saved_state))
                   (responded 200 ''{\"ok\":true}'' (JObj [(''ok'', JBool True)]))]
              saved_state = Some s'
           \<and> savedId (ideas s' ! 0) = JStr ''r1'')"
  using second_save_identifier
          [of 0 saved_state saved_idea
              "responded 200 ''{\"ok\":true}'' (JObj [(''ok'', JBool True)])"
              "JObj [(''ok'', JBool True)]"]
  by (simp add: saved_state_def saved_idea_def init_def responded_def request_def res_ok_def
        safeParseBody_def response_id_def js_or_def onSave_def call_api_def setSaving_def
        setIdeaBusy_def setIdeaError_def remove_nth_def save_resumed_def showNotice_def
        mark_saved_def)

text \<open>
  Claim C8 as stated fails: the saved list has loaded, the user generates and saves an
  idea, and the refresh of the saved list is rejected; \<^verbatim>\<open>savedStatus\<close> is still
  \<^verbatim>\<open>"success"\<close>, so the view is not marked unavailable (that is shown for \<^verbatim>\<open>"error"\<close> only).
\<close>

theorem refresh_failure_counterexample:
  "map_option (\<lambda>s. (savedStatus s, savedIdeas s, map savedId (ideas s), pending s))
     (ui_run (generate_and_save @ [Settle 0 rejected]) init)
   = Some (StSuccess, JArr [], [JStr ''r1''], [])"
  by (simp add: run_defs)

text \<open>
  Claim C8, amended.  When the refresh of the saved list that follows a successful Save
  fails, the failure is ignored: the previous saved-view projection, \<^verbatim>\<open>savedStatus\<close> and
  \<^verbatim>\<open>savedError\<close> are left as they were (the view is not marked unavailable), the records
  keep the result of the save, no record error is set, and the record's \<^verbatim>\<open>saving\<close> flag is
  cleared.
\<close>

theorem refresh_failure_ignored:
  assumes "k < length (pending s)" and "pending s ! k = PRefresh i"
    and "request (outcome ev) = Inl e"
  shows "\<exists>s'. step (Settle k ev) s = Some s'
           \<and> savedIdeas s' = savedIdeas s \<and> savedStatus s' = savedStatus s
           \<and> savedError s' = savedError s \<and> ideas s' = ideas s
           \<and> errorByIdeaId s' = errorByIdeaId s
           \<and> \<not> saving (busyByIdeaId s' (idea_id i))"
  using assms by (simp add: refresh_resumed_def setSaving_def setIdeaBusy_def)

theorem refresh_failure_ignored_witness:
  "0 < length (pending refreshing_state) \<and> pending refreshing_state ! 0 = PRefresh saved_idea
   \<and> request (outcome rejected) =
       Inl \<lparr>err_name = ''TypeError'', err_message = ''Failed to fetch'',
            err_status = None, err_body = None\<rparr>
   \<and> (\<exists>s'. step (Settle 0 rejected) refreshing_state = Some s'
           \<and> savedIdeas s' = JArr [JObj [(''id'', JStr ''r1''), (''text'', JStr ''a'')]]
           \<and> savedStatus s' = StSuccess \<and> ideas s' = [saved_idea])"
  using refresh_failure_ignored [of 0 refreshing_state saved_idea rejected]
  by (simp add: refreshing_state_def saved_state_def init_def rejected_def request_def)

section \<open>Handlers in flight\<close>

subsection \<open>What each handler leaves alone\<close>

lemma downloadTextFile_Inr:
  assumes "downloadTextFile fn src mt s = Inr s'"
  shows "\<exists>d. s' = s\<lparr>downloads := downloads s @ [d]\<rparr>"
proof (cases "blob_text src")
  case (Inl e)
  with assms show ?thesis by (simp add: downloadTextFile_def)
next
  case c: (Inr c)
  show ?thesis
  proof (cases "js_toString mt")
    case (Inl e)
    with assms c show ?thesis by (simp add: downloadTextFile_def)
  next
    case m: (Inr m)
    show ?thesis
    proof (cases "js_toString fn")
      case (Inl e)
      with assms c m show ?thesis by (simp add: downloadTextFile_def)
    next
      case (Inr f)
      with assms c m show ?thesis by (auto simp add: downloadTextFile_def)
    qed
  qed
qed

lemma client_export_shape:
  "(case downloadTextFile fn src mt s of Inl e \<Rightarrow> s | Inr s' \<Rightarrow> showNotice ty m s') = s
   \<or> (\<exists>d. (case downloadTextFile fn src mt s of Inl e \<Rightarrow> s | Inr s' \<Rightarrow> showNotice ty m s')
          = showNotice ty m (s\<lparr>downloads := downloads s @ [d]\<rparr>))"
proof (cases "downloadTextFile fn src mt s")
  case (Inl e)
  then show ?thesis by simp
next
  case (Inr s')
  with downloadTextFile_Inr [OF Inr] show ?thesis by auto
qed

lemma onExport_shape:
  "onExport i format s = s
   \<or> (\<exists>m d. onExport i format s
          = showNotice ''success'' m (s\<lparr>downloads := downloads s @ [d]\<rparr>))
   \<or> (\<exists>m. onExport i format s = setIdeaError (idea_id i) m s)
   \<or> onExport i format s
        = call_api (ExportIdea (savedId i) format) (PExport i format)
            (setExporting (idea_id i) True (setIdeaError (idea_id i) [] s))"
proof (cases "truthy (savedId i)")
  case True
  then show ?thesis by (simp add: onExport_def)
next
  case False
  show ?thesis
  proof (cases "format = ''txt''")
    case True
    with False client_export_shape
      [where fn = "JStr (safeName (topic s) @ ''-'' @ slice_last 6 (idea_id i) @ ''.txt'')"
         and src = "Value (idea_text i)" and mt = "JStr ''text/plain;charset=utf-8''"
         and s = s and ty = "''success''" and m = "''Exported as .txt''"]
    show ?thesis by (auto simp: onExport_def Let_def)
  next
    case not_txt: False
    show ?thesis
    proof (cases "format = ''json''")
      case True
      with False client_export_shape
        [where fn = "JStr (safeName (topic s) @ ''-'' @ slice_last 6 (idea_id i) @ ''.json'')"
           and src = "Stringify (JObj [(''topic'', JStr (js_trim (topic s))),
                                       (''idea'', idea_text i)])"
           and mt = "JStr ''application/json;charset=utf-8''"
           and s = s and ty = "''success''" and m = "''Exported as .json''"]
      show ?thesis by (auto simp: onExport_def Let_def)
    next
      case False
      with not_txt \<open>\<not> truthy (savedId i)\<close> show ?thesis
        by (auto simp: onExport_def Let_def)
    qed
  qed
qed

lemma onExport_frame:
  "generationStatus (onExport i format s) = generationStatus s"
  "ideas (onExport i format s) = ideas s"
  "filter is_generate (pending (onExport i format s)) = filter is_generate (pending s)"
  "filter (is_save_of j) (pending (onExport i format s)) = filter (is_save_of j) (pending s)"
  "saving (busyByIdeaId (onExport i format s) j) = saving (busyByIdeaId s j)"
  using onExport_shape [of i format s]
  by (auto simp: helper_defs setIdeaBusy_def split: if_splits)

lemma export_resumed_shape:
  "(\<exists>e. export_resumed i format ev s = export_failed i e s)
   \<or> (\<exists>m d. export_resumed i format ev s
          = setExporting (idea_id i) False
              (showNotice ''success'' m (s\<lparr>downloads := downloads s @ [d]\<rparr>)))"
proof (cases "exportIdea (savedId i) (outcome ev)")
  case (Inl e)
  then show ?thesis by (auto simp: export_resumed_def)
next
  case d: (Inr d)
  show ?thesis
  proof (cases "export_filename d (savedId i) format")
    case (Inl e)
    with d show ?thesis by (auto simp: export_resumed_def Let_def)
  next
    case fn: (Inr fn)
    define src where
      "src = (if truthy (js_or (js_or (if typeof_string d then d else JNull)
                                  (js_get d ''content'')) (js_get d ''data''))
              then Value (js_or (js_or (if typeof_string d then d else JNull)
                                   (js_get d ''content'')) (js_get d ''data''))
              else Stringify d)"
    define mt where
      "mt = js_or (js_get d ''mimeType'')
              (JStr (if format = ''json'' then ''application/json;charset=utf-8''
                     else ''text/plain;charset=utf-8''))"
    have unfolded: "export_resumed i format ev s =
        (case downloadTextFile fn src mt s of
           Inl e \<Rightarrow> export_failed i e s
         | Inr s' \<Rightarrow>
             setExporting (idea_id i) False
               (showNotice ''success'' (''Exported '' @ toUpperCase format @ ''.'') s'))"
      using d fn by (simp add: export_resumed_def Let_def src_def mt_def)
    show ?thesis
    proof (cases "downloadTextFile fn src mt s")
      case (Inl e)
      with unfolded show ?thesis by auto
    next
      case (Inr s')
      with unfolded downloadTextFile_Inr [OF Inr] show ?thesis by auto
    qed
  qed
qed

lemma export_resumed_frame:
  "generationStatus (export_resumed i format ev s) = generationStatus s"
  "ideas (export_resumed i format ev s) = ideas s"
  "pending (export_resumed i format ev s) = pending s"
  "saving (busyByIdeaId (export_resumed i format ev s) j) = saving (busyByIdeaId s j)"
  using export_resumed_shape [of i format ev s]
  by (auto simp: export_failed_def helper_defs setIdeaBusy_def split: if_splits)

lemma resume_generate_frame:
  assumes "\<not> is_generate p"
  shows "generationStatus (resume p ev s) = generationStatus s"
    and "filter is_generate (pending (resume p ev s)) = filter is_generate (pending s)"
    and "ideas s = [] \<Longrightarrow> ideas (resume p ev s) = []"
  using assms
  by (cases p; simp add: resumed_defs helper_defs mark_saved_def Let_def export_resumed_frame
        split: sum.splits option.splits)+

lemma generate_resumed_frame:
  "generationStatus (generate_resumed c ev s) \<noteq> StLoading"
  "pending (generate_resumed c ev s) = pending s"
  by (simp_all add: generate_resumed_def generate_failed_def showNotice_def split: sum.splits)

lemma handlers_generate_frame:
  "generationStatus (onSave i s) = generationStatus s"
  "generationStatus (onShare i s) = generationStatus s"
  "generationStatus (onCopy t s) = generationStatus s"
  "ideas (onSave i s) = ideas s"
  "ideas (onShare i s) = ideas s"
  "ideas (onCopy t s) = ideas s"
  "filter is_generate (pending (onSave i s)) = filter is_generate (pending s)"
  "filter is_generate (pending (onShare i s)) = filter is_generate (pending s)"
  "filter is_generate (pending (onCopy t s)) = filter is_generate (pending s)"
  by (simp_all add: onSave_def onShare_def onCopy_def helper_defs Let_def)

lemma handlers_save_frame:
  "filter (is_save_of j) (pending (onGenerate s)) = filter (is_save_of j) (pending s)"
  "filter (is_save_of j) (pending (onShare i s)) = filter (is_save_of j) (pending s)"
  "filter (is_save_of j) (pending (onCopy t s)) = filter (is_save_of j) (pending s)"
  "saving (busyByIdeaId (onGenerate s) j) = saving (busyByIdeaId s j)"
  "saving (busyByIdeaId (onShare i s) j) = saving (busyByIdeaId s j)"
  "saving (busyByIdeaId (onCopy t s) j) = saving (busyByIdeaId s j)"
  by (simp_all add: onGenerate_def onShare_def onCopy_def helper_defs Let_def)

lemma onSave_effect:
  "pending (onSave i s) = pending s @ [PSave i]"
  "saving (busyByIdeaId (onSave i s) j) = (j = idea_id i \<or> saving (busyByIdeaId s j))"
  by (simp_all add: onSave_def helper_defs)

lemma resume_save_frame:
  assumes "\<not> is_save p"
  shows "filter (is_save_of j) (pending (resume p ev s)) = filter (is_save_of j) (pending s)"
    and "saving (busyByIdeaId (resume p ev s) j) = saving (busyByIdeaId s j)"
  using assms
  by (cases p; simp add: resumed_defs helper_defs Let_def export_resumed_frame
        split: sum.splits option.splits)+

lemma save_resumed_effect:
  "j \<noteq> idea_id i \<Longrightarrow>
     filter (is_save_of j) (pending (save_resumed i ev s)) = filter (is_save_of j) (pending s)"
  "j \<noteq> idea_id i \<Longrightarrow>
     saving (busyByIdeaId (save_resumed i ev s) j) = saving (busyByIdeaId s j)"
  "saving (busyByIdeaId s (idea_id i)) \<Longrightarrow>
     length (filter (is_save_of (idea_id i)) (pending (save_resumed i ev s)))
     = length (filter (is_save_of (idea_id i)) (pending s))
       + (if saving (busyByIdeaId (save_resumed i ev s) (idea_id i)) then 1 else 0)"
  by (auto simp add: save_resumed_def helper_defs split: sum.splits)

lemma refresh_resumed_effect:
  "pending (refresh_resumed i ev s) = pending s"
  "saving (busyByIdeaId (refresh_resumed i ev s) j)
     = (j \<noteq> idea_id i \<and> saving (busyByIdeaId s j))"
  by (auto simp add: refresh_resumed_def helper_defs split: sum.splits)

subsection \<open>The Generate invariant\<close>

lemma gen_inv_init: "gen_inv init"
  by (simp add: gen_inv_def generates_in_flight_def init_def)

lemma gen_inv_settle:
  assumes "gen_inv s" and "k < length (pending s)"
  shows "gen_inv (resume (pending s ! k) ev (s\<lparr>pending := remove_nth k (pending s)\<rparr>))"
proof (cases "is_generate (pending s ! k)")
  case True
  then obtain c where p: "pending s ! k = PGenerate c"
    by (cases "pending s ! k") simp_all
  from filter_remove_nth [OF assms(2), of is_generate] True assms(1)
  have "length (filter is_generate (remove_nth k (pending s))) = 0"
    by (simp add: gen_inv_def generates_in_flight_def split: if_splits)
  then show ?thesis
    using generate_resumed_frame [of c ev "s\<lparr>pending := remove_nth k (pending s)\<rparr>"]
    by (simp add: p gen_inv_def generates_in_flight_def)
next
  case False
  let ?s1 = "s\<lparr>pending := remove_nth k (pending s)\<rparr>"
  from filter_remove_nth [OF assms(2), of is_generate] False
  have "length (filter is_generate (remove_nth k (pending s)))
          = length (filter is_generate (pending s))"
    by simp
  then show ?thesis
    using assms(1) resume_generate_frame(1) [OF False, where ev = ev and s = ?s1]
      resume_generate_frame(2) [OF False, where ev = ev and s = ?s1]
      resume_generate_frame(3) [OF False, where ev = ev and s = ?s1]
    by (simp add: gen_inv_def generates_in_flight_def)
qed

lemma gen_inv_step:
  assumes "gen_inv s" and "ui_enabled s e" and "step e s = Some s'"
  shows "gen_inv s'"
proof (cases e)
  case OnGenerate
  with assms show ?thesis
    by (auto simp: gen_inv_def generates_in_flight_def canGenerate_def onGenerate_def
          call_api_def Let_def)
next
  case (Settle k ev)
  with assms gen_inv_settle [of s k ev] show ?thesis
    by (auto split: if_splits)
qed (use assms in \<open>auto simp: gen_inv_def generates_in_flight_def handlers_generate_frame
       onExport_frame split: if_splits\<close>)

lemma gen_inv_ui_run:
  "gen_inv s \<Longrightarrow> ui_run es s = Some s' \<Longrightarrow> gen_inv s'"
proof (induction es arbitrary: s)
  case Nil
  then show ?case by simp
next
  case (Cons e es)
  then show ?case
    by (auto split: if_splits option.splits dest: gen_inv_step)
qed

lemma in_flight_loading:
  assumes "gen_inv s" and "k < length (pending s)" and "pending s ! k = PGenerate c"
  shows "generationStatus s = StLoading \<and> ideas s = []"
proof -
  have "pending s ! k \<in> set (filter is_generate (pending s))"
    using assms(2,3) nth_mem [of k "pending s"] by simp
  then have "0 < generates_in_flight s"
    unfolding generates_in_flight_def by (metis length_pos_if_in_set)
  with assms(1) show ?thesis
    by (simp add: gen_inv_def split: if_splits)
qed

subsection \<open>The Save invariant\<close>

lemma save_inv_init: "save_inv init"
  by (simp add: save_inv_def saves_in_flight_def init_def)

lemma save_inv_settle:
  assumes "save_inv s" and "k < length (pending s)"
  shows "save_inv (resume (pending s ! k) ev (s\<lparr>pending := remove_nth k (pending s)\<rparr>))"
proof -
  let ?p = "pending s ! k"
  let ?s1 = "s\<lparr>pending := remove_nth k (pending s)\<rparr>"
  have inv: "length (filter (is_save_of j) (pending s))
               = (if saving (busyByIdeaId s j) then 1 else 0)" for j
    using assms(1) by (simp add: save_inv_def saves_in_flight_def)
  have removed:
    "length (filter (is_save_of j) (pending ?s1)) + (if is_save_of j ?p then 1 else 0)
       = (if saving (busyByIdeaId s j) then 1 else 0)" for j
    using filter_remove_nth [OF assms(2), of "is_save_of j"] inv [of j] by simp
  show ?thesis
  proof (cases ?p)
    case (PSave it)
    have "length (filter (is_save_of j) (pending (save_resumed it ev ?s1)))
            = (if saving (busyByIdeaId (save_resumed it ev ?s1) j) then 1 else 0)" for j
    proof (cases "j = idea_id it")
      case True
      with removed [of j] PSave have "saving (busyByIdeaId s (idea_id it))"
        and "length (filter (is_save_of (idea_id it)) (pending ?s1)) = 0"
        by (simp_all split: if_splits)
      with save_resumed_effect(3) [of ?s1 it ev] True show ?thesis
        by simp
    next
      case False
      with removed [of j] PSave save_resumed_effect(1,2) [OF False, of ev ?s1] show ?thesis
        by (simp split: if_splits)
    qed
    with PSave show ?thesis
      by (simp add: save_inv_def saves_in_flight_def)
  next
    case (PRefresh it)
    have "length (filter (is_save_of j) (pending (refresh_resumed it ev ?s1)))
            = (if saving (busyByIdeaId (refresh_resumed it ev ?s1) j) then 1 else 0)" for j
      using removed [of j] PRefresh
      by (auto simp: refresh_resumed_effect split: if_splits)
    with PRefresh show ?thesis
      by (simp add: save_inv_def saves_in_flight_def)
  qed (use removed resume_save_frame [where p = ?p and ev = ev and s = ?s1] in
        \<open>simp_all add: save_inv_def saves_in_flight_def\<close>)
qed

lemma save_inv_step:
  assumes "save_inv s" and "ui_enabled s e" and "step e s = Some s'"
  shows "save_inv s'"
proof (cases e)
  case (OnSave i)
  with assms have s': "s' = onSave i s" and idle: "\<not> saving (busyByIdeaId s (idea_id i))"
    by simp_all
  have "length (filter (is_save_of j) (pending s))
          = (if saving (busyByIdeaId s j) then 1 else 0)" for j
    using assms(1) by (simp add: save_inv_def saves_in_flight_def)
  then have "saves_in_flight j (onSave i s)
          = (if saving (busyByIdeaId (onSave i s) j) then 1 else 0)" for j
    using idle by (cases "j = idea_id i") (auto simp: saves_in_flight_def onSave_effect)
  then show ?thesis
    by (simp add: s' save_inv_def)
next
  case (Settle k ev)
  with assms save_inv_settle [of s k ev] show ?thesis
    by (auto split: if_splits)
qed (use assms in \<open>auto simp: save_inv_def saves_in_flight_def handlers_save_frame
       onExport_frame split: if_splits\<close>)

lemma save_inv_ui_run:
  "save_inv s \<Longrightarrow> ui_run es s = Some s' \<Longrightarrow> save_inv s'"
proof (induction es arbitrary: s)
  case Nil
  then show ?case by simp
next
  case (Cons e es)
  then show ?case
    by (auto split: if_splits option.splits dest: save_inv_step)
qed

subsection \<open>Overlapping Generate calls\<close>

text \<open>
  Claim C1 as stated fails: \<^verbatim>\<open>onGenerate\<close> is called twice before any response (two calls
  are then in flight), the response to the second call arrives first and the response to
  the first call last; the collection ends up holding the stale response of the first.
\<close>

theorem stale_generate_counterexample:
  "map_option generates_in_flight (run [SetTopic ''cats'', OnGenerate, OnGenerate] init)
     = Some 2 \<and>
   map_option (map idea_text \<circ> ideas)
     (run [SetTopic ''cats'', OnGenerate, OnGenerate,
           Settle 2 (responded 200 ''[\"new\"]'' (JArr [JStr ''new''])),
           Settle 1 (responded 200 ''[\"old\"]'' (JArr [JStr ''old'']))] init)
     = Some [JStr ''old'']"
  by (simp add: run_defs generates_in_flight_def)

text \<open>
  Claim C1, amended.  \<^verbatim>\<open>onGenerate\<close> keeps no generation counter and applies every response
  when it arrives: resuming any suspended Generate (in any state \<open>t\<close>, whatever else is in
  flight) with a response that normalises to \<open>xs\<close> makes \<open>xs\<close> the collection.  A stale
  response is excluded at the form instead: in every state \<open>s\<close> reached through the rendered
  controls a Generate is in flight exactly while \<^verbatim>\<open>generationStatus\<close> is \<^verbatim>\<open>"loading"\<close>, at
  most one is, and the submit control is enabled only when none is.
\<close>

theorem one_generate_in_flight:
  assumes "ui_run es init = Some s"
    and "k < length (pending t)" and "pending t ! k = PGenerate c"
    and "request (outcome ev) = Inr r" and "normalize c (ids ev) r = Inr xs"
  shows "generates_in_flight s = (if generationStatus s = StLoading then 1 else 0)
         \<and> (ui_enabled s OnGenerate \<longrightarrow> generates_in_flight s = 0)
         \<and> map_option ideas (step (Settle k ev) t) = Some xs"
  using gen_inv_ui_run [OF gen_inv_init assms(1)] assms(2-)
  by (simp add: gen_inv_def canGenerate_def generate_resumed_def showNotice_def)

theorem one_generate_in_flight_witness:
  "\<exists>s t. ui_run [SetTopic ''cats'', OnGenerate] init = Some s
       \<and> run [SetTopic ''cats'', OnGenerate, OnGenerate,
               Settle 2 (responded 200 ''[\"new\"]'' (JArr [JStr ''new'']))] init = Some t
       \<and> 1 < length (pending t) \<and> pending t ! 1 = PGenerate 6
       \<and> request (outcome (responded 200 ''[\"old\"]'' (JArr [JStr ''old''])))
           = Inr (JArr [JStr ''old''])
       \<and> normalize 6 (ids (responded 200 ''[\"old\"]'' (JArr [JStr ''old''])))
             (JArr [JStr ''old''])
           = Inr [\<lparr>idea_id = ''local_0'', idea_text = JStr ''old'', savedId = JUndefined,
                   savedAt = None\<rparr>]
       \<and> generationStatus s = StLoading \<and> generates_in_flight s = 1
       \<and> \<not> ui_enabled s OnGenerate
       \<and> map_option (map idea_text \<circ> ideas)
            (step (Settle 1 (responded 200 ''[\"old\"]'' (JArr [JStr ''old'']))) t)
           = Some [JStr ''old'']"
proof -
  let ?old = "responded 200 ''[\"old\"]'' (JArr [JStr ''old''])"
  obtain s where s: "ui_run [SetTopic ''cats'', OnGenerate] init = Some s"
    by (simp add: run_defs)
  then have l: "generationStatus s = StLoading"
    by (auto simp: run_defs)
  obtain t where t: "run [SetTopic ''cats'', OnGenerate, OnGenerate,
               Settle 2 (responded 200 ''[\"new\"]'' (JArr [JStr ''new'']))] init = Some t"
    by (simp add: run_defs)
  then have p: "1 < length (pending t)" "pending t ! 1 = PGenerate 6"
    by (auto simp: run_defs)
  have r: "request (outcome ?old) = Inr (JArr [JStr ''old''])"
    by (simp add: run_defs)
  have n: "normalize 6 (ids ?old) (JArr [JStr ''old''])
           = Inr [\<lparr>idea_id = ''local_0'', idea_text = JStr ''old'', savedId = JUndefined,
                   savedAt = None\<rparr>]"
    by (simp add: run_defs)
  from one_generate_in_flight [OF s p r n] s t p r n l show ?thesis
    by auto
qed

subsection \<open>A failing Generate\<close>

text \<open>
  Claim C7 as stated fails: \<^verbatim>\<open>onGenerate\<close> is called twice before any response, the first
  call succeeds with one idea and the second call then fails; the collection still holds
  the batch of the first call, next to the error.
\<close>

theorem generate_failure_counterexample:
  "map_option (\<lambda>s. (map idea_text (ideas s), generationStatus s, generationError s))
     (run [SetTopic ''cats'', OnGenerate, OnGenerate,
           Settle 1 (responded 200 ''[\"a\"]'' (JArr [JStr ''a''])),
           Settle 1 rejected] init)
   = Some ([JStr ''a''], StError, ''Failed to fetch'')"
  by (simp add: run_defs generate_failed_def message_or_def)

text \<open>
  Claim C7, amended.  The failure branch of \<^verbatim>\<open>onGenerate\<close> clears nothing: in any state
  \<open>t\<close>, when the service call of a Generate in flight fails (a rejected or timed-out
  request, or a response that is not 2xx), \<^verbatim>\<open>generationStatus\<close> becomes \<^verbatim>\<open>"error"\<close>,
  \<^verbatim>\<open>generationError\<close> the error's message (a default when it has none) and the collection
  is left as it is.  The collection is emptied when a call with a topic of at least 3
  trimmed characters starts.  So in every state \<open>s\<close> reached through the rendered controls,
  where no second Generate can start before the response, the collection is empty after
  the failure and the error is surfaced.
\<close>

theorem generate_failure_clears:
  assumes "ui_run es init = Some s" and "k < length (pending s)"
    and "pending s ! k = PGenerate c" and "request (outcome ev) = Inl e"
    and "j < length (pending t)" and "pending t ! j = PGenerate d"
  shows "(\<exists>s'. step (Settle k ev) s = Some s'
           \<and> ideas s' = [] \<and> generationStatus s' = StError
           \<and> generationError s' = message_or e ''Failed to generate ideas.''
           \<and> generationError s' \<noteq> [])
       \<and> (\<exists>t'. step (Settle j ev) t = Some t'
           \<and> ideas t' = ideas t \<and> generationStatus t' = StError
           \<and> generationError t' = message_or e ''Failed to generate ideas.'')
       \<and> map_option ideas (step OnGenerate u)
           = Some (if length (js_trim (topic u)) < 3 then ideas u else [])"
  using in_flight_loading [OF gen_inv_ui_run [OF gen_inv_init assms(1)] assms(2,3)] assms(2-)
  by (simp add: generate_resumed_def generate_failed_def message_or_def onGenerate_def
        call_api_def Let_def)

theorem generate_failure_clears_witness:
  "\<exists>s t. ui_run (generated_once @ [OnGenerate]) init = Some s
       \<and> 0 < length (pending s) \<and> pending s ! 0 = PGenerate 6
       \<and> request (outcome rejected) =
           Inl \<lparr>err_name = ''TypeError'', err_message = ''Failed to fetch'',
                err_status = None, err_body = None\<rparr>
       \<and> run [SetTopic ''cats'', OnGenerate, OnGenerate,
               Settle 1 (responded 200 ''[\"a\"]'' (JArr [JStr ''a'']))] init = Some t
       \<and> 1 < length (pending t) \<and> pending t ! 1 = PGenerate 6
       \<and> (\<exists>s'. step (Settle 0 rejected) s = Some s' \<and> ideas s' = []
              \<and> generationStatus s' = StError \<and> generationError s' = ''Failed to fetch'')
       \<and> (\<exists>t'. step (Settle 1 rejected) t = Some t' \<and> map idea_text (ideas t') = [JStr ''a'']
              \<and> generationStatus t' = StError)"
proof -
  obtain s where s: "ui_run (generated_once @ [OnGenerate]) init = Some s"
    by (simp add: run_defs)
  then have p: "0 < length (pending s)" "pending s ! 0 = PGenerate 6"
    by (auto simp: run_defs)
  have r: "request (outcome rejected) =
           Inl \<lparr>err_name = ''TypeError'', err_message = ''Failed to fetch'',
                err_status = None, err_body = None\<rparr>"
    by (simp add: rejected_def request_def)
  obtain t where t: "run [SetTopic ''cats'', OnGenerate, OnGenerate,
               Settle 1 (responded 200 ''[\"a\"]'' (JArr [JStr ''a'']))] init = Some t"
    by (simp add: run_defs)
  then have q: "1 < length (pending t)" "pending t ! 1 = PGenerate 6"
    and i: "map idea_text (ideas t) = [JStr ''a'']"
    by (auto simp: run_defs)
  from generate_failure_clears [OF s p r q] s p r t q i show ?thesis
    by (auto simp: message_or_def)
qed

subsection \<open>Overlapping Save calls\<close>

text \<open>
  Claim C2 as stated fails: \<^verbatim>\<open>onSave\<close> is called twice on the same record before any
  response; it is neither rejected nor a no-op: two Saves of the record are in flight and
  two \<^verbatim>\<open>saveIdea\<close> calls have been issued.
\<close>

theorem double_save_counterexample:
  "map_option (\<lambda>s. (saves_in_flight ''local_0'' s, drop 2 (requests s)))
     (run (generated_once @ [OnSave generated_idea, OnSave generated_idea]) init)
   = Some (2, [SaveIdea ''cats'' (JStr ''a''), SaveIdea ''cats'' (JStr ''a'')])"
  by (simp add: run_defs saves_in_flight_def)

text \<open>
  Claim C2, amended.  \<^verbatim>\<open>onSave\<close> itself has no guard: called twice in a row on a record,
  in any state \<open>t\<close>, it issues two \<^verbatim>\<open>saveIdea\<close> calls and leaves two more Saves of the record
  in flight.  A second Save is excluded at the record's Save button, which is disabled while
  \<^verbatim>\<open>busy.saving\<close> is set: in every state \<open>s\<close> reached through the rendered controls a Save
  of record \<open>i\<close> is in flight exactly while its \<^verbatim>\<open>saving\<close> flag is set, at most one is, and
  the button of a record is enabled only when no Save of that record is in flight.
\<close>

theorem one_save_in_flight:
  assumes "ui_run es init = Some s"
  shows "saves_in_flight i s = (if saving (busyByIdeaId s i) then 1 else 0)
         \<and> (ui_enabled s (OnSave it) \<longrightarrow> saves_in_flight (idea_id it) s = 0)
         \<and> map_option (saves_in_flight (idea_id j)) (run [OnSave j, OnSave j] t)
             = Some (saves_in_flight (idea_id j) t + 2)
         \<and> map_option requests (run [OnSave j, OnSave j] t)
             = Some (requests t @ [SaveIdea (js_trim (topic t)) (idea_text j),
                                   SaveIdea (js_trim (topic t)) (idea_text j)])"
  using save_inv_ui_run [OF save_inv_init assms]
  by (simp add: save_inv_def saves_in_flight_def onSave_def helper_defs)

theorem one_save_in_flight_witness:
  "\<exists>s. ui_run (generated_once @ [OnSave generated_idea]) init = Some s
       \<and> saves_in_flight ''local_0'' s = 1 \<and> \<not> ui_enabled s (OnSave generated_idea)"
proof -
  obtain s where s: "ui_run (generated_once @ [OnSave generated_idea]) init = Some s"
    by (simp add: run_defs)
  then have "saving (busyByIdeaId s ''local_0'')"
    by (auto simp: run_defs)
  with one_save_in_flight [OF s, of "''local_0''" generated_idea] s show ?thesis
    by (auto simp: generated_idea_def)
qed

end
